theory Spec2Isabelle
  imports Main "HOL-Library.Word" "HOL-Library.Sublist"
begin

section \<open>The kerbrute probing session (session/session.go)\<close>

text \<open>
  A shallow embedding of package \<open>session\<close>: the two configuration templates and
  \<open>buildKrb5Template\<close>, the constructor \<open>NewKerbruteSession\<close>, and the methods
  \<open>TestLogin\<close>, \<open>TestUsername\<close> and \<open>DumpASRepHash\<close>.

  Go strings are byte strings: \<open>string\<close> (a list of 8-bit characters). A Go result
  \<open>(v, err)\<close> is a pair whose second component is \<open>error option\<close>, \<open>None\<close> for
  \<open>nil\<close>; a pointer that may be \<open>nil\<close> is an \<open>option\<close>. A call that can panic
  returns an \<open>outcome\<close>. What a function does to the file system, the standard output,
  the log and the network is threaded through a \<open>world\<close>.
\<close>

subsection \<open>Errors, panics and the world outside the process\<close>

type_synonym int32 = "32 word"

text \<open>
  A Go \<open>error\<close> by its dynamic type: a \<open>messages.KRBError\<close> (the only type that the type
  assertion in \<open>TestUsername\<close> accepts), with its error code and the text its \<open>Error\<close>
  method gives, or an error of any other type, with its text.
\<close>

datatype error = KRBError (ErrorCode: int32) (ErrorText: string) | OtherError string

fun Error :: "error \<Rightarrow> string" where
  "Error (KRBError c t) = t"
| "Error (OtherError t) = t"

text \<open>\<open>errorcode.KDC_ERR_PREAUTH_REQUIRED\<close> of gokrb5 (RFC 4120, section 7.5.9).\<close>

definition KDC_ERR_PREAUTH_REQUIRED :: int32 where
  "KDC_ERR_PREAUTH_REQUIRED = 25"

datatype 'a outcome = is_Returned: Returned (result: 'a) | Panicked (panicValue: error)

text \<open>The panic value of a \<open>nil\<close> pointer dereference.\<close>

definition nilDereference :: error where
  "nilDereference = OtherError ''runtime error: invalid memory address or nil pointer dereference''"

datatype level = DEBUG | INFO | NOTICE | WARNING | ERROR

text \<open>Calls on a \<open>kclient.Client\<close> that reach a KDC or release the client.\<close>

datatype call =
    SendToKDC_call string string
  | Login_call string string
  | Destroy_call string string

record world =
  files :: "string \<rightharpoonup> string"
  stdout :: "string list"
  logged :: "(level \<times> string) list"
  calls :: "call list"

abbreviation nl :: char where "nl \<equiv> CHR 0x0A"
abbreviation tab :: char where "tab \<equiv> CHR 0x09"

text \<open>
  \<open>fmt.Printf\<close> with a format and no operands: \<open>stdout\<close> records the format, which
  is what is printed when the format holds no verb.
\<close>

definition Printf :: "string \<Rightarrow> world \<Rightarrow> world" where
  "Printf format w = w\<lparr>stdout := stdout w @ [format]\<rparr>"

text \<open>
  \<open>util.Logger\<close> belongs to the repository's package \<open>util\<close>; here a logger is the
  pair of arguments \<open>util.NewLogger\<close> was called with, and a call of one of its
  \<open>Log\<close> methods adds the level and the formatted message to \<open>logged\<close>.
\<close>

record Logger =
  verbose :: bool
  logFileName :: string

definition NewLogger :: "bool \<Rightarrow> string \<Rightarrow> Logger" where
  "NewLogger v f = \<lparr>verbose = v, logFileName = f\<rparr>"

definition logMessage :: "Logger \<Rightarrow> level \<Rightarrow> string \<Rightarrow> world \<Rightarrow> world" where
  "logMessage lg l msg w = w\<lparr>logged := logged w @ [(l, msg)]\<rparr>"

text \<open>An \<open>os.File\<close> opened for appending, by its name; the contents are in \<open>files\<close>.\<close>

record File =
  Name :: string

definition contents :: "world \<Rightarrow> string \<Rightarrow> string" where
  "contents w name = (case files w name of None \<Rightarrow> [] | Some c \<Rightarrow> c)"

subsection \<open>Data of the Kerberos library\<close>

text \<open>
  The types of gokrb5 with the fields this package reads or writes. The type
  variable \<open>'x\<close> stands for the library's data that the package only passes on: the
  rest of a configuration, the rest of an AS-REP, and the whole of an AS-REQ.
\<close>

record PrincipalName =
  NameType :: int32
  NameString :: "string list"

fun Join :: "string list \<Rightarrow> string \<Rightarrow> string" where
  "Join [] sep = []"
| "Join [a] sep = a"
| "Join (a # b # rest) sep = a @ sep @ Join (b # rest) sep"

definition PrincipalNameString :: "PrincipalName \<Rightarrow> string" where
  "PrincipalNameString pn = Join (NameString pn) ''/''"

record 'x LibDefaults =
  DefaultTktEnctypeIDs :: "int32 list"
  LibDefaultsOther :: 'x

record 'x Config =
  LibDefaults :: "'x LibDefaults"
  ConfigOther :: 'x

text \<open>
  \<open>credentials.Credentials\<close> keeps its fields private; the two fields here are what
  its methods \<open>Domain()\<close> and \<open>CName()\<close> return.
\<close>

record Credentials =
  Domain :: string
  CName :: PrincipalName

record 'x ASRep =
  CName :: PrincipalName
  ASRepOther :: 'x

record 'x Client =
  Credentials :: Credentials
  Config :: "'x Config option"
  ClientOther :: 'x

datatype setting = DisablePAFXFAST bool | AssumePreAuthentication bool

text \<open>
  Everything the package calls and does not define: gokrb5 (\<open>config\<close>, \<open>client\<close>,
  \<open>messages\<close>), \<open>strings.ToUpper\<close>, the operating system's answer to opening and
  writing a file, the KDC behind \<open>SendToKDC\<close> and \<open>Login\<close>, and
  \<open>util.ASRepToHashcat\<close>. Each operation of the package calls each of them at most
  once, so a function of the arguments covers every behaviour during that call.
  \<open>OpenFile_fault\<close> is the error \<open>os.OpenFile\<close> fails with, if it fails;
  \<open>WriteString_fault\<close> is the number of bytes written before a failing write and its
  error.
\<close>

record 'x env =
  ToUpper :: "string \<Rightarrow> string"
  NewFromString :: "string \<Rightarrow> 'x Config \<times> error option"
  EnableSocks5 :: "'x Config \<Rightarrow> string \<Rightarrow> string \<Rightarrow> string \<Rightarrow> 'x Config"
  WithContext :: "'x Config \<Rightarrow> 'x Config"
  GetKDCs :: "'x Config \<Rightarrow> string \<Rightarrow> bool \<Rightarrow> int \<times> (int \<rightharpoonup> string) \<times> error option"
  OpenFile_fault :: "string \<Rightarrow> error option"
  WriteString_fault :: "File \<Rightarrow> string \<Rightarrow> (nat \<times> error) option"
  NewWithPassword :: "string \<Rightarrow> string \<Rightarrow> string \<Rightarrow> 'x Config option \<Rightarrow> setting list \<Rightarrow> 'x Client"
  NewASReqForTGT :: "string \<Rightarrow> 'x Config option \<Rightarrow> PrincipalName \<Rightarrow> 'x \<times> error option"
  Marshal :: "'x \<Rightarrow> string \<times> error option"
  SendToKDC :: "'x Client \<Rightarrow> string \<Rightarrow> string \<Rightarrow> string \<times> error option"
  Unmarshal :: "string \<Rightarrow> 'x ASRep \<times> error option"
  ASRepToHashcat :: "'x ASRep \<Rightarrow> string \<times> error option"
  IsConfigured :: "'x Client \<Rightarrow> bool \<times> error option"
  Login :: "'x Client \<Rightarrow> error option"

text \<open>
  \<open>os.OpenFile(name, O_APPEND|O_WRONLY|O_CREATE, 0644)\<close>: a file that does not exist
  is created empty, one that exists keeps its contents.
\<close>

definition OpenFile :: "'x env \<Rightarrow> string \<Rightarrow> world \<Rightarrow> (File option \<times> error option) \<times> world" where
  "OpenFile env name w =
     (case OpenFile_fault env name of
        Some e \<Rightarrow> ((None, Some e), w)
      | None \<Rightarrow> ((Some \<lparr>Name = name\<rparr>, None), w\<lparr>files := (files w)(name \<mapsto> contents w name)\<rparr>))"

text \<open>
  \<open>File.WriteString\<close> on a file opened with \<open>O_APPEND\<close>: the bytes go to the end of
  the file; a failing write leaves the first \<open>n\<close> of them there.
\<close>

definition WriteString :: "'x env \<Rightarrow> File \<Rightarrow> string \<Rightarrow> world \<Rightarrow> error option \<times> world" where
  "WriteString env f s w =
     (case WriteString_fault env f s of
        None \<Rightarrow> (None, w\<lparr>files := (files w)(Name f \<mapsto> contents w (Name f) @ s)\<rparr>)
      | Some (n, e) \<Rightarrow> (Some e, w\<lparr>files := (files w)(Name f \<mapsto> contents w (Name f) @ take n s)\<rparr>))"

subsection \<open>The configuration templates and \<open>html/template\<close>\<close>

definition krb5ConfigTemplateDNS :: string where
  "krb5ConfigTemplateDNS =
     ''[libdefaults]'' @ [nl] @
     ''dns_lookup_kdc = true'' @ [nl] @
     ''default_realm = {{.Realm}}'' @ [nl]"

definition krb5ConfigTemplateKDC :: string where
  "krb5ConfigTemplateKDC =
     ''[libdefaults]'' @ [nl] @
     ''default_realm = {{.Realm}}'' @ [nl] @
     ''[realms]'' @ [nl] @
     ''{{.Realm}} = {'' @ [nl] @
     [tab] @ ''kdc = {{.DomainController}}'' @ [nl] @
     [tab] @ ''admin_server = {{.DomainController}}'' @ [nl] @
     ''}'' @ [nl]"

text \<open>
  The package imports \<open>html/template\<close>, not \<open>text/template\<close>. The model covers the
  fragment of the template language that the two constants use: literal text, and
  actions \<open>{{.Name}}\<close> that print a field of the data. An action of any other form
  is a parse error here; the constants have none. \<open>Cut d s\<close> splits \<open>s\<close> around
  the first \<open>d\<close>, as \<open>strings.Cut\<close> does.
\<close>

datatype node = TextNode string | FieldNode string

fun Cut :: "string \<Rightarrow> string \<Rightarrow> (string \<times> string) option" where
  "Cut d [] = (if d = [] then Some ([], []) else None)"
| "Cut d (c # cs) =
     (if prefix d (c # cs) then Some ([], drop (length d) (c # cs))
      else (case Cut d cs of None \<Rightarrow> None | Some (a, b) \<Rightarrow> Some (c # a, b)))"

lemma Cut_length: "Cut d s = Some (a, b) \<Longrightarrow> length a + length d + length b = length s"
  by (induction s arbitrary: a b) (auto split: if_splits option.splits dest: prefix_length_le)

function Parse :: "string \<Rightarrow> error + node list" where
  "Parse s =
     (case Cut ''{{'' s of
        None \<Rightarrow> Inr (if s = [] then [] else [TextNode s])
      | Some (t, r) \<Rightarrow>
          (case Cut ''}}'' r of
             None \<Rightarrow> Inl (OtherError ''template: krb5ConfigString: unclosed action'')
           | Some (a, r') \<Rightarrow>
               (if a \<noteq> [] \<and> hd a = CHR ''.'' \<and> tl a \<noteq> [] then
                  (case Parse r' of
                     Inl e \<Rightarrow> Inl e
                   | Inr ns \<Rightarrow> Inr ((if t = [] then [] else [TextNode t]) @ FieldNode (tl a) # ns))
                else Inl (OtherError ''template: krb5ConfigString: unexpected action''))))"
  by pat_completeness auto
termination
proof (relation "measure length")
  show "wf (measure length)" by simp
next
  fix s :: string and x2 t r x2a a r'
  assume "Cut ''{{'' s = Some x2" "(t, r) = x2" "Cut ''}}'' r = Some x2a" "(a, r') = x2a"
  then have "length t + 2 + length r = length s" "length a + 2 + length r' = length r"
    using Cut_length [of "''{{''" s t r] Cut_length [of "''}}''" r a r'] by auto
  then show "(r', s) \<in> measure length" by simp
qed

declare Parse.simps [simp del]

text \<open>
  \<open>htmlReplacementTable\<close> of \<open>html/template\<close>. Every action of the two templates
  stands in the text of the document, where \<open>html/template\<close> pipes the value of an
  action through its HTML escaper: the escaper replaces these seven bytes and copies
  every other byte. NUL becomes the UTF-8 encoding of U+FFFD.
\<close>

definition htmlReplacement :: "char \<Rightarrow> string" where
  "htmlReplacement c =
     (if c = CHR 0x00 then [CHR 0xEF, CHR 0xBF, CHR 0xBD]
      else if c = CHR 0x22 then ''&#34;''
      else if c = CHR ''&'' then ''&amp;''
      else if c = CHR 0x27 then ''&#39;''
      else if c = CHR ''+'' then ''&#43;''
      else if c = CHR ''<'' then ''&lt;''
      else if c = CHR ''>'' then ''&gt;''
      else [c])"

definition htmlEscaper :: "string \<Rightarrow> string" where
  "htmlEscaper s = concat (map htmlReplacement s)"

text \<open>The strings that \<open>htmlEscaper\<close> copies: none of the seven bytes of the table.\<close>

definition htmlSafe :: "string \<Rightarrow> bool" where
  "htmlSafe s =
     list_all (\<lambda>c. c \<notin> set [CHR 0x00, CHR 0x22, CHR ''&'', CHR 0x27, CHR ''+'', CHR ''<'', CHR ''>'']) s"

text \<open>
  \<open>Template.Execute\<close> on a map of strings: text is copied, a field prints the escaped
  value of its key, and a key that the map does not have prints nothing. No node of
  this fragment makes the execution fail.
\<close>

fun execNodes :: "node list \<Rightarrow> (string \<rightharpoonup> string) \<Rightarrow> string" where
  "execNodes [] data = []"
| "execNodes (TextNode t # ns) data = t @ execNodes ns data"
| "execNodes (FieldNode f # ns) data =
     (case data f of None \<Rightarrow> [] | Some v \<Rightarrow> htmlEscaper v) @ execNodes ns data"

definition Execute :: "node list \<Rightarrow> (string \<rightharpoonup> string) \<Rightarrow> string \<times> error option" where
  "Execute t data = (execNodes t data, None)"

definition buildKrb5Template :: "string \<Rightarrow> string \<Rightarrow> string outcome" where
  "buildKrb5Template realm domainController =
     (let data = [''Realm'' \<mapsto> realm, ''DomainController'' \<mapsto> domainController];
          kTemplate = (if domainController = [] then krb5ConfigTemplateDNS else krb5ConfigTemplateKDC)
      in case Parse kTemplate of
           Inl err \<Rightarrow> Panicked err
         | Inr t \<Rightarrow>
             (case Execute t data of
                (builder, Some err) \<Rightarrow> Panicked err
              | (builder, None) \<Rightarrow> Returned builder))"

subsection \<open>The session and its constructor\<close>

record KerbruteSessionOptions =
  Domain :: string
  DomainController :: string
  Verbose :: bool
  SafeMode :: bool
  Downgrade :: bool
  HashFilename :: string
  Socks5Proxy :: string
  Socks5Username :: string
  Socks5Password :: string
  logger :: "Logger option"

record 'x KerbruteSession =
  Domain :: string
  Realm :: string
  Kdcs :: "int \<rightharpoonup> string"
  ConfigString :: string
  Config :: "'x Config option"
  Verbose :: bool
  SafeMode :: bool
  HashFile :: "File option"
  Logger :: "Logger option"

text \<open>The zero value of \<open>KerbruteSession\<close>: the named result \<open>k\<close> before it is assigned.\<close>

definition zeroSession :: "'x KerbruteSession" where
  "zeroSession =
     \<lparr>Domain = [], Realm = [], Kdcs = Map.empty, ConfigString = [], Config = None,
      Verbose = False, SafeMode = False, HashFile = None, Logger = None\<rparr>"

text \<open>
  The log lines of \<open>NewKerbruteSession\<close>: after the hash file is opened (the note
  and, without \<open>Downgrade\<close>, the warning), and after the proxy is enabled (the proxy,
  then the user name when one is given; the password is never written).
\<close>

definition logHashFile :: "Logger \<Rightarrow> KerbruteSessionOptions \<Rightarrow> File \<Rightarrow> world \<Rightarrow> world" where
  "logHashFile lg options hashFile w =
     (let w' = logMessage lg INFO (''Saving any captured hashes to '' @ Name hashFile) w
      in if \<not> Downgrade options then
           logMessage lg WARNING ''You are capturing AS-REPs, but not downgrading encryption. You probably want to downgrade to arcfour-hmac-md5 (--downgrade) to crack them with a user's password instead of AES keys'' w'
         else w')"

definition logSocks5 :: "Logger \<Rightarrow> KerbruteSessionOptions \<Rightarrow> world \<Rightarrow> world" where
  "logSocks5 lg options w =
     (let w' = logMessage lg INFO (''Using SOCKS5 proxy: '' @ Socks5Proxy options) w
      in if Socks5Username options \<noteq> [] then
           (if Socks5Password options \<noteq> [] then
              logMessage lg INFO (''Using SOCKS5 proxy authentication with username: '' @ Socks5Username options) w'
            else
              logMessage lg INFO (''Using SOCKS5 proxy with username: '' @ Socks5Username options @ '' but no password'') w')
         else w')"

text \<open>
  \<open>NewKerbruteSession\<close>, statement by statement. The two \<open>panic\<close>s are the \<open>Panicked\<close>
  results: of \<open>buildKrb5Template\<close>, and of a configuration text that
  \<open>kconfig.NewFromString\<close> does not parse. The methods \<open>EnableSocks5\<close> and the
  assignment to \<open>DefaultTktEnctypeIDs\<close> change the configuration in place; here each
  gives the changed configuration.
\<close>

definition NewKerbruteSession ::
  "'x env \<Rightarrow> KerbruteSessionOptions \<Rightarrow> world \<Rightarrow> ('x KerbruteSession \<times> error option) outcome \<times> world" where
  "NewKerbruteSession env options w =
     (if KerbruteSessionOptions.Domain options = [] then
        (Returned (zeroSession, Some (OtherError ''domain must not be empty'')), w)
      else
        let lg = (case logger options of
                    None \<Rightarrow> NewLogger (KerbruteSessionOptions.Verbose options) []
                  | Some l \<Rightarrow> l);
            ((hashFile, err), w1) =
              (if HashFilename options \<noteq> [] then OpenFile env (HashFilename options) w
               else ((None, None), w))
        in (case err of
             Some e \<Rightarrow> (Returned (zeroSession, Some e), w1)
           | None \<Rightarrow>
              (let w2 = (case hashFile of None \<Rightarrow> w1 | Some f \<Rightarrow> logHashFile lg options f w1);
                   realm = ToUpper env (KerbruteSessionOptions.Domain options)
               in (case buildKrb5Template realm (DomainController options) of
                    Panicked e \<Rightarrow> (Panicked e, w2)
                  | Returned configstring \<Rightarrow>
                      (case NewFromString env configstring of
                         (cfg, Some e) \<Rightarrow> (Panicked e, w2)
                       | (cfg, None) \<Rightarrow>
                          (let (cfg1, w3) =
                                 (if Socks5Proxy options \<noteq> [] then
                                    (EnableSocks5 env cfg (Socks5Proxy options) (Socks5Username options) (Socks5Password options),
                                     logSocks5 lg options w2)
                                  else (cfg, w2));
                               configWithContext = WithContext env cfg1;
                               (configWithContext', w4) =
                                 (if Downgrade options then
                                    (configWithContext\<lparr>LibDefaults := (LibDefaults configWithContext)\<lparr>DefaultTktEnctypeIDs := [23]\<rparr>\<rparr>,
                                     logMessage lg INFO ''Using downgraded encryption: arcfour-hmac-md5'' w3)
                                  else (configWithContext, w3));
                               (n, kdcs, err) = GetKDCs env configWithContext' realm False;
                               err' = (case err of
                                         None \<Rightarrow> None
                                       | Some e \<Rightarrow> Some (OtherError (''Couldn't find any KDCs for realm '' @ realm @ ''. Please specify a Domain Controller'')))
                           in (Returned
                                 (\<lparr>Domain = KerbruteSessionOptions.Domain options,
                                   Realm = realm,
                                   Kdcs = kdcs,
                                   ConfigString = configstring,
                                   Config = Some configWithContext',
                                   Verbose = KerbruteSessionOptions.Verbose options,
                                   SafeMode = KerbruteSessionOptions.SafeMode options,
                                   HashFile = hashFile,
                                   Logger = Some lg\<rparr>, err'), w4)))))))"

subsection \<open>The probes and the hash exporter\<close>

text \<open>
  \<open>DumpASRepHash\<close>. The receiver is a copy of the session; \<open>k.Logger\<close> is a pointer,
  and a call through it when it is \<open>nil\<close> panics. The result of \<open>WriteString\<close> is only
  logged.
\<close>

definition DumpASRepHash :: "'x env \<Rightarrow> 'x KerbruteSession \<Rightarrow> 'x ASRep \<Rightarrow> world \<Rightarrow> unit outcome \<times> world" where
  "DumpASRepHash env k asrep w =
     (case ASRepToHashcat env asrep of
        (hash, Some err) \<Rightarrow>
          (case Logger k of
             None \<Rightarrow> (Panicked nilDereference, w)
           | Some lg \<Rightarrow>
               (Returned (),
                logMessage lg DEBUG
                  (''[!] Got encrypted TGT for '' @ PrincipalNameString (ASRep.CName asrep) @
                   '', but couldn't convert to hash: '' @ Error err) w))
      | (hash, None) \<Rightarrow>
          (case Logger k of
             None \<Rightarrow> (Panicked nilDereference, w)
           | Some lg \<Rightarrow>
              (let w1 = logMessage lg NOTICE
                          (''[+] '' @ PrincipalNameString (ASRep.CName asrep) @
                           '' has no pre auth required. Dumping hash to crack offline:'' @ [nl] @ hash) w
               in (case HashFile k of
                     None \<Rightarrow> (Returned (), w1)
                   | Some f \<Rightarrow>
                       (case WriteString env f (hash @ [nl]) w1 of
                          (None, w2) \<Rightarrow> (Returned (), w2)
                        | (Some err, w2) \<Rightarrow>
                            (Returned (),
                             logMessage lg ERROR (''[!] Error writing hash to file: '' @ Error err) w2))))))"

text \<open>
  \<open>TestUsername\<close>. The error of \<open>NewASReqForTGT\<close> is printed and the request is
  marshalled all the same. The type assertion \<open>err.(messages.KRBError)\<close> is the case
  distinction on the error.
\<close>

definition TestUsername :: "'x env \<Rightarrow> 'x KerbruteSession \<Rightarrow> string \<Rightarrow> world \<Rightarrow> (bool \<times> error option) outcome \<times> world" where
  "TestUsername env k username w =
     (let cl = NewWithPassword env username (Realm k) ''foobar'' (Config k) [DisablePAFXFAST True];
          (req, err) = NewASReqForTGT env (Credentials.Domain (Credentials cl)) (Client.Config cl)
                         (Credentials.CName (Credentials cl));
          w1 = (case err of None \<Rightarrow> w | Some e \<Rightarrow> Printf (Error e) w);
          (b, err) = Marshal env req
      in (case err of
           Some e \<Rightarrow> (Returned (False, Some e), w1)
         | None \<Rightarrow>
            (let (rb, err) = SendToKDC env cl b (Realm k);
                 w2 = w1\<lparr>calls := calls w1 @ [SendToKDC_call b (Realm k)]\<rparr>
             in (case err of
                  None \<Rightarrow>
                    (case Unmarshal env rb of
                       (ASRep, Some e) \<Rightarrow> (Returned (False, Some e), w2)
                     | (ASRep, None) \<Rightarrow>
                         (case DumpASRepHash env k ASRep w2 of
                            (Panicked e, w3) \<Rightarrow> (Panicked e, w3)
                          | (Returned u, w3) \<Rightarrow> (Returned (True, None), w3)))
                | Some (OtherError t) \<Rightarrow> (Returned (False, err), w2)
                | Some (KRBError code t) \<Rightarrow>
                    (if code = KDC_ERR_PREAUTH_REQUIRED then (Returned (True, None), w2)
                     else (Returned (False, err), w2))))))"

text \<open>
  Modelled from the spec: \<open>TestLoginError\<close>, a method of \<open>KerbruteSession\<close> that
  \<open>TestLogin\<close> calls and that session.go does not define. Section 4.3 of the
  specification gives the result of a failed login as \<open>false, err\<close> with the
  underlying Kerberos error returned.
\<close>

definition TestLoginError :: "'x KerbruteSession \<Rightarrow> error \<Rightarrow> bool \<times> error option" where
  "TestLoginError k err = (False, Some err)"

text \<open>
  \<open>TestLogin\<close>. The deferred \<open>Client.Destroy()\<close> runs at each of the three returns.
\<close>

definition TestLogin :: "'x env \<Rightarrow> 'x KerbruteSession \<Rightarrow> string \<Rightarrow> string \<Rightarrow> world \<Rightarrow> (bool \<times> error option) outcome \<times> world" where
  "TestLogin env k username password w =
     (let Client = NewWithPassword env username (Realm k) password (Config k)
                     [DisablePAFXFAST True, AssumePreAuthentication True];
          (ok, err) = IsConfigured env Client
      in if \<not> ok then
           (Returned (False, err), w\<lparr>calls := calls w @ [Destroy_call username (Realm k)]\<rparr>)
         else
          (let err = Login env Client;
               w1 = w\<lparr>calls := calls w @ [Login_call username (Realm k)]\<rparr>;
               w2 = w1\<lparr>calls := calls w1 @ [Destroy_call username (Realm k)]\<rparr>
           in (case err of
                 None \<Rightarrow> (Returned (True, None), w2)
               | Some e \<Rightarrow> (Returned (TestLoginError k e), w2))))"

subsection \<open>A method call, as the caller sees it\<close>

text \<open>
  The three methods are declared with the value receiver \<open>(k KerbruteSession)\<close>: a
  call works on a copy of the caller's session, so after the call the caller holds
  the session it held before, in the world the call has left. This holds as well
  when the call panics. \<open>invoke\<close> is one such call, on the caller's session and world;
  a run of calls is \<open>fold (invoke env) ops\<close>.
\<close>

datatype 'x operation =
    OpTestLogin string string
  | OpTestUsername string
  | OpDumpASRepHash "'x ASRep"

fun invoke :: "'x env \<Rightarrow> 'x operation \<Rightarrow> 'x KerbruteSession \<times> world \<Rightarrow> 'x KerbruteSession \<times> world" where
  "invoke env (OpTestLogin username password) (k, w) = (k, snd (TestLogin env k username password w))"
| "invoke env (OpTestUsername username) (k, w) = (k, snd (TestUsername env k username w))"
| "invoke env (OpDumpASRepHash asrep) (k, w) = (k, snd (DumpASRepHash env k asrep w))"

subsection \<open>An environment, a session and a world for the examples\<close>

text \<open>
  A realm \<open>EXAMPLE.COM\<close> whose KDC asks \<open>alice\<close> for pre-authentication, answers
  \<open>bob\<close> with an AS-REP and does not know anybody else; \<open>hunter2\<close> is everybody's
  password. The configuration keeps the text it was parsed from, a request is its
  description, and \<open>ToUpper\<close> is the upper case of ASCII.
\<close>

definition asciiUpper :: "char \<Rightarrow> char" where
  "asciiUpper c =
     (case map_of (zip ''abcdefghijklmnopqrstuvwxyz'' ''ABCDEFGHIJKLMNOPQRSTUVWXYZ'') c of
        None \<Rightarrow> c
      | Some u \<Rightarrow> u)"

definition exampleEnv :: "string env" where
  "exampleEnv =
     \<lparr>ToUpper = map asciiUpper,
      NewFromString = (\<lambda>s. (\<lparr>LibDefaults = \<lparr>DefaultTktEnctypeIDs = [18, 17, 23], LibDefaultsOther = []\<rparr>,
                                ConfigOther = s\<rparr>, None)),
      EnableSocks5 = (\<lambda>c proxy user pass. c\<lparr>ConfigOther := ConfigOther c @ ''socks5 '' @ proxy\<rparr>),
      WithContext = (\<lambda>c. c),
      GetKDCs = (\<lambda>c r tcp. (1, [1 \<mapsto> ''dc1.example.com:88''], None)),
      OpenFile_fault = (\<lambda>name. None),
      WriteString_fault = (\<lambda>f s. None),
      NewWithPassword = (\<lambda>user r pass c settings.
         \<lparr>Credentials = \<lparr>Credentials.Domain = r, Credentials.CName = \<lparr>NameType = 1, NameString = [user]\<rparr>\<rparr>,
          Config = c, ClientOther = pass\<rparr>),
      NewASReqForTGT = (\<lambda>r c pn. (''AS-REQ '' @ PrincipalNameString pn @ ''@'' @ r, None)),
      Marshal = (\<lambda>req. (req, None)),
      SendToKDC = (\<lambda>cl b r.
         if b = ''AS-REQ alice@EXAMPLE.COM'' then ([], Some (KRBError 25 ''KDC_ERR_PREAUTH_REQUIRED''))
         else if b = ''AS-REQ bob@EXAMPLE.COM'' then (''AS-REP bob'', None)
         else ([], Some (KRBError 6 ''KDC_ERR_C_PRINCIPAL_UNKNOWN''))),
      Unmarshal = (\<lambda>rb. (\<lparr>CName = \<lparr>NameType = 1, NameString = [''bob'']\<rparr>, ASRepOther = rb\<rparr>, None)),
      ASRepToHashcat = (\<lambda>rep. (''$krb5asrep$23$'' @ PrincipalNameString (ASRep.CName rep), None)),
      IsConfigured = (\<lambda>cl. (True, None)),
      Login = (\<lambda>cl. if ClientOther cl = ''hunter2'' then None
                     else Some (KRBError 24 ''KDC_ERR_PREAUTH_FAILED''))\<rparr>"

definition exampleOptions :: KerbruteSessionOptions where
  "exampleOptions =
     \<lparr>KerbruteSessionOptions.Domain = ''example.com'', DomainController = ''dc1.example.com'',
      KerbruteSessionOptions.Verbose = False, KerbruteSessionOptions.SafeMode = False,
      Downgrade = True, HashFilename = ''hashes.txt'', Socks5Proxy = [],
      Socks5Username = [], Socks5Password = [], logger = None\<rparr>"

definition exampleConfigString :: string where
  "exampleConfigString =
     ''[libdefaults]'' @ [nl] @
     ''default_realm = EXAMPLE.COM'' @ [nl] @
     ''[realms]'' @ [nl] @
     ''EXAMPLE.COM = {'' @ [nl] @
     [tab] @ ''kdc = dc1.example.com'' @ [nl] @
     [tab] @ ''admin_server = dc1.example.com'' @ [nl] @
     ''}'' @ [nl]"

definition exampleSession :: "string KerbruteSession" where
  "exampleSession =
     \<lparr>Domain = ''example.com'', Realm = ''EXAMPLE.COM'',
      Kdcs = [1 \<mapsto> ''dc1.example.com:88''],
      ConfigString = exampleConfigString,
      Config = Some \<lparr>LibDefaults = \<lparr>DefaultTktEnctypeIDs = [23], LibDefaultsOther = []\<rparr>,
                     ConfigOther = exampleConfigString\<rparr>,
      Verbose = False, SafeMode = False,
      HashFile = Some \<lparr>Name = ''hashes.txt''\<rparr>,
      Logger = Some (NewLogger False [])\<rparr>"

definition emptyWorld :: world where
  "emptyWorld = \<lparr>files = Map.empty, stdout = [], logged = [], calls = []\<rparr>"

text \<open>The AS-REP of \<open>bob\<close>, and the session of the example when no KDC is found.\<close>

definition bobASRep :: "string ASRep" where
  "bobASRep = \<lparr>CName = \<lparr>NameType = 1, NameString = [''bob'']\<rparr>, ASRepOther = ''AS-REP bob''\<rparr>"

definition noKdcSession :: "string KerbruteSession" where
  "noKdcSession = exampleSession\<lparr>Kdcs := Map.empty\<rparr>"

text \<open>
  The same environment with one part that fails: the network, the bytes of the
  answer, marshalling, the construction of the request, the write to the hash file,
  the conversion to a hash, the configuration of the client, the search for a KDC,
  the opening of the hash file, and the parsing of the configuration.
\<close>

definition timeoutEnv :: "string env" where
  "timeoutEnv = exampleEnv\<lparr>SendToKDC := (\<lambda>cl b r. ([], Some (OtherError ''dial tcp 10.0.0.1:88: i/o timeout'')))\<rparr>"

definition garbageEnv :: "string env" where
  "garbageEnv = exampleEnv\<lparr>Unmarshal := (\<lambda>rb.
     (\<lparr>CName = \<lparr>NameType = 0, NameString = []\<rparr>, ASRepOther = []\<rparr>,
      Some (OtherError ''asn1: structure error'')))\<rparr>"

definition marshalFailEnv :: "string env" where
  "marshalFailEnv = exampleEnv\<lparr>Marshal := (\<lambda>req. ([], Some (OtherError ''asn1: cannot marshal'')))\<rparr>"

definition noRequestEnv :: "string env" where
  "noRequestEnv = exampleEnv\<lparr>NewASReqForTGT := (\<lambda>r c pn. ([], Some (OtherError ''no encryption types'')))\<rparr>"

definition fullDiskEnv :: "string env" where
  "fullDiskEnv = exampleEnv\<lparr>WriteString_fault := (\<lambda>f s. Some (5, OtherError ''write hashes.txt: no space left on device''))\<rparr>"

definition aesEnv :: "string env" where
  "aesEnv = exampleEnv\<lparr>ASRepToHashcat := (\<lambda>rep. ([], Some (OtherError ''unsupported encryption type'')))\<rparr>"

definition unconfiguredEnv :: "string env" where
  "unconfiguredEnv = exampleEnv\<lparr>IsConfigured := (\<lambda>cl. (False, Some (OtherError ''client does not have a username'')))\<rparr>"

definition noKdcEnv :: "string env" where
  "noKdcEnv = exampleEnv\<lparr>GetKDCs := (\<lambda>c r tcp. (0, Map.empty, Some (OtherError ''no KDC SRV records found for realm EXAMPLE.COM'')))\<rparr>"

definition readOnlyEnv :: "string env" where
  "readOnlyEnv = exampleEnv\<lparr>OpenFile_fault := (\<lambda>name. Some (OtherError ''open hashes.txt: permission denied''))\<rparr>"

definition unparsableEnv :: "string env" where
  "unparsableEnv = exampleEnv\<lparr>NewFromString := (\<lambda>s.
     (\<lparr>LibDefaults = \<lparr>DefaultTktEnctypeIDs = [], LibDefaultsOther = []\<rparr>, ConfigOther = []\<rparr>,
      Some (OtherError ''invalid krb5 config'')))\<rparr>"

section \<open>Properties\<close>

subsection \<open>The world under logging, printing and writing\<close>

lemma files_logMessage [simp]: "files (logMessage lg l msg w) = files w"
  and calls_logMessage [simp]: "calls (logMessage lg l msg w) = calls w"
  and stdout_logMessage [simp]: "stdout (logMessage lg l msg w) = stdout w"
  and logged_logMessage [simp]: "logged (logMessage lg l msg w) = logged w @ [(l, msg)]"
  by (simp_all add: logMessage_def)

lemma files_Printf [simp]: "files (Printf format w) = files w"
  and calls_Printf [simp]: "calls (Printf format w) = calls w"
  and stdout_Printf [simp]: "stdout (Printf format w) = stdout w @ [format]"
  by (simp_all add: Printf_def)

lemma calls_WriteString [simp]: "calls (snd (WriteString env f s w)) = calls w"
  and stdout_WriteString [simp]: "stdout (snd (WriteString env f s w)) = stdout w"
  by (simp_all add: WriteString_def split: option.splits prod.splits)

lemma files_WriteString:
  "files (snd (WriteString env f s w)) =
     (files w)(Name f \<mapsto> contents w (Name f) @
        (case WriteString_fault env f s of None \<Rightarrow> s | Some (n, e) \<Rightarrow> take n s))"
  by (simp add: WriteString_def split: option.splits prod.splits)

lemma files_WriteString_cong:
  "files w1 = files w \<Longrightarrow> files (snd (WriteString env f s w1)) = files (snd (WriteString env f s w))"
  by (simp add: files_WriteString contents_def)

subsection \<open>The rendered configuration\<close>

lemma Parse_krb5ConfigTemplateDNS:
  "Parse krb5ConfigTemplateDNS =
     Inr [TextNode (''[libdefaults]'' @ [nl] @ ''dns_lookup_kdc = true'' @ [nl] @ ''default_realm = ''),
          FieldNode ''Realm'', TextNode [nl]]"
  by code_simp

lemma Parse_krb5ConfigTemplateKDC:
  "Parse krb5ConfigTemplateKDC =
     Inr [TextNode (''[libdefaults]'' @ [nl] @ ''default_realm = ''), FieldNode ''Realm'',
          TextNode ([nl] @ ''[realms]'' @ [nl]), FieldNode ''Realm'',
          TextNode ('' = {'' @ [nl] @ [tab] @ ''kdc = ''), FieldNode ''DomainController'',
          TextNode ([nl] @ [tab] @ ''admin_server = ''), FieldNode ''DomainController'',
          TextNode ([nl] @ ''}'' @ [nl])]"
  by code_simp

lemma buildKrb5Template_DNS:
  "buildKrb5Template realm [] =
     Returned (''[libdefaults]'' @ [nl] @ ''dns_lookup_kdc = true'' @ [nl] @
               ''default_realm = '' @ htmlEscaper realm @ [nl])"
  by (simp add: buildKrb5Template_def Parse_krb5ConfigTemplateDNS Execute_def)

lemma buildKrb5Template_KDC:
  "domainController \<noteq> [] \<Longrightarrow>
   buildKrb5Template realm domainController =
     Returned (''[libdefaults]'' @ [nl] @ ''default_realm = '' @ htmlEscaper realm @ [nl] @
               ''[realms]'' @ [nl] @
               htmlEscaper realm @ '' = {'' @ [nl] @
               [tab] @ ''kdc = '' @ htmlEscaper domainController @ [nl] @
               [tab] @ ''admin_server = '' @ htmlEscaper domainController @ [nl] @
               ''}'' @ [nl])"
  by (simp add: buildKrb5Template_def Parse_krb5ConfigTemplateKDC Execute_def)

lemma buildKrb5Template_Returned: "is_Returned (buildKrb5Template realm domainController)"
  by (cases "domainController = []") (simp_all add: buildKrb5Template_DNS buildKrb5Template_KDC)

text \<open>
  The template is chosen by the domain controller alone: the second line of the
  text is \<open>dns_lookup_kdc = true\<close> exactly when no domain controller is given.
\<close>

lemma buildKrb5Template_selects_DNS:
  "prefix (''[libdefaults]'' @ [nl] @ ''dns_lookup_kdc = true'' @ [nl])
     (result (buildKrb5Template realm domainController)) \<longleftrightarrow> domainController = []"
  by (cases "domainController = []") (simp_all add: buildKrb5Template_DNS buildKrb5Template_KDC)

lemma htmlEscaper_Cons: "htmlEscaper (c # s) = htmlReplacement c @ htmlEscaper s"
  by (simp add: htmlEscaper_def)

lemma htmlEscaper_safe: "htmlSafe s \<Longrightarrow> htmlEscaper s = s"
  by (induction s) (simp_all add: htmlSafe_def htmlEscaper_def htmlReplacement_def)

lemma length_htmlReplacement: "1 \<le> length (htmlReplacement c)"
  by (simp add: htmlReplacement_def)

lemma length_htmlEscaper: "length s \<le> length (htmlEscaper s)"
proof (induction s)
  case Nil
  then show ?case by (simp add: htmlEscaper_def)
next
  case (Cons c s)
  then show ?case
    using length_htmlReplacement [of c] by (simp add: htmlEscaper_Cons)
qed

lemma htmlEscaper_unsafe_longer: "\<not> htmlSafe s \<Longrightarrow> length s < length (htmlEscaper s)"
proof (induction s)
  case Nil
  then show ?case by (simp add: htmlSafe_def)
next
  case (Cons c s)
  show ?case
  proof (cases "c \<in> set [CHR 0x00, CHR 0x22, CHR ''&'', CHR 0x27, CHR ''+'', CHR ''<'', CHR ''>'']")
    case True
    then have "2 \<le> length (htmlReplacement c)"
      by (auto simp add: htmlReplacement_def)
    then show ?thesis
      using length_htmlEscaper [of s] by (simp add: htmlEscaper_Cons)
  next
    case False
    with Cons.prems have "\<not> htmlSafe s" by (simp add: htmlSafe_def)
    with Cons.IH have "length s < length (htmlEscaper s)" .
    moreover from False have "htmlReplacement c = [c]"
      by (simp add: htmlReplacement_def)
    ultimately show ?thesis by (simp add: htmlEscaper_Cons)
  qed
qed

lemma htmlEscaper_eq_iff: "htmlEscaper s = s \<longleftrightarrow> htmlSafe s"
proof
  assume eq: "htmlEscaper s = s"
  show "htmlSafe s"
  proof (rule ccontr)
    assume "\<not> htmlSafe s"
    then have "length s < length (htmlEscaper s)" by (rule htmlEscaper_unsafe_longer)
    with eq show False by simp
  qed
next
  assume "htmlSafe s"
  then show "htmlEscaper s = s" by (rule htmlEscaper_safe)
qed

text \<open>Realm and domain controller are copied as they are when both are \<open>htmlSafe\<close>.\<close>

lemma buildKrb5Template_KDC_safe:
  "domainController \<noteq> [] \<Longrightarrow> htmlSafe realm \<Longrightarrow> htmlSafe domainController \<Longrightarrow>
   buildKrb5Template realm domainController =
     Returned (''[libdefaults]'' @ [nl] @ ''default_realm = '' @ realm @ [nl] @
               ''[realms]'' @ [nl] @
               realm @ '' = {'' @ [nl] @
               [tab] @ ''kdc = '' @ domainController @ [nl] @
               [tab] @ ''admin_server = '' @ domainController @ [nl] @
               ''}'' @ [nl])"
  by (simp add: buildKrb5Template_KDC htmlEscaper_safe)

subsection \<open>The constructor, path by path\<close>

lemma NewKerbruteSession_empty_domain:
  "KerbruteSessionOptions.Domain options = [] \<Longrightarrow>
   NewKerbruteSession env options w =
     (Returned (zeroSession, Some (OtherError ''domain must not be empty'')), w)"
  by (simp add: NewKerbruteSession_def)

lemma NewKerbruteSession_open_fails:
  "KerbruteSessionOptions.Domain options \<noteq> [] \<Longrightarrow> HashFilename options \<noteq> [] \<Longrightarrow>
   OpenFile_fault env (HashFilename options) = Some e \<Longrightarrow>
   NewKerbruteSession env options w = (Returned (zeroSession, Some e), w)"
  by (simp add: NewKerbruteSession_def OpenFile_def Let_def)

lemma NewKerbruteSession_parse_fails:
  assumes "KerbruteSessionOptions.Domain options \<noteq> []"
    and "HashFilename options = [] \<or> OpenFile_fault env (HashFilename options) = None"
    and "buildKrb5Template (ToUpper env (KerbruteSessionOptions.Domain options)) (DomainController options) = Returned configstring"
    and "NewFromString env configstring = (cfg, Some e)"
  shows "fst (NewKerbruteSession env options w) = Panicked e"
  using assms by (auto simp add: NewKerbruteSession_def OpenFile_def Let_def)

lemma NewKerbruteSession_assembles:
  assumes "KerbruteSessionOptions.Domain options \<noteq> []"
    and "HashFilename options = [] \<or> OpenFile_fault env (HashFilename options) = None"
    and "buildKrb5Template (ToUpper env (KerbruteSessionOptions.Domain options)) (DomainController options) = Returned configstring"
    and "NewFromString env configstring = (cfg, None)"
    and "cfg1 = WithContext env (if Socks5Proxy options \<noteq> [] then EnableSocks5 env cfg (Socks5Proxy options) (Socks5Username options) (Socks5Password options) else cfg)"
    and "cfg2 = (if Downgrade options then cfg1\<lparr>LibDefaults := (LibDefaults cfg1)\<lparr>DefaultTktEnctypeIDs := [23]\<rparr>\<rparr> else cfg1)"
    and "GetKDCs env cfg2 (ToUpper env (KerbruteSessionOptions.Domain options)) False = (n, kdcs, err)"
  shows "fst (NewKerbruteSession env options w) =
     Returned
       (\<lparr>Domain = KerbruteSessionOptions.Domain options,
         Realm = ToUpper env (KerbruteSessionOptions.Domain options),
         Kdcs = kdcs,
         ConfigString = configstring,
         Config = Some cfg2,
         Verbose = KerbruteSessionOptions.Verbose options,
         SafeMode = KerbruteSessionOptions.SafeMode options,
         HashFile = (if HashFilename options \<noteq> [] then Some \<lparr>Name = HashFilename options\<rparr> else None),
         Logger = Some (case logger options of
                          None \<Rightarrow> NewLogger (KerbruteSessionOptions.Verbose options) []
                        | Some l \<Rightarrow> l)\<rparr>,
        case err of
          None \<Rightarrow> None
        | Some e \<Rightarrow> Some (OtherError (''Couldn't find any KDCs for realm '' @
                     ToUpper env (KerbruteSessionOptions.Domain options) @
                     ''. Please specify a Domain Controller'')))"
  using assms by (auto simp add: NewKerbruteSession_def OpenFile_def Let_def)

lemma NewKerbruteSession_Returned_cases:
  assumes res: "NewKerbruteSession env options w = (Returned (k, err), w')"
  obtains
    (zero) "k = zeroSession" "err \<noteq> None"
  | (assembled) configstring cfg cfg1 cfg2 n kdcs err0 where
      "KerbruteSessionOptions.Domain options \<noteq> []"
      "HashFilename options = [] \<or> OpenFile_fault env (HashFilename options) = None"
      "buildKrb5Template (ToUpper env (KerbruteSessionOptions.Domain options)) (DomainController options) = Returned configstring"
      "NewFromString env configstring = (cfg, None)"
      "cfg1 = WithContext env (if Socks5Proxy options \<noteq> [] then EnableSocks5 env cfg (Socks5Proxy options) (Socks5Username options) (Socks5Password options) else cfg)"
      "cfg2 = (if Downgrade options then cfg1\<lparr>LibDefaults := (LibDefaults cfg1)\<lparr>DefaultTktEnctypeIDs := [23]\<rparr>\<rparr> else cfg1)"
      "GetKDCs env cfg2 (ToUpper env (KerbruteSessionOptions.Domain options)) False = (n, kdcs, err0)"
      "k = \<lparr>Domain = KerbruteSessionOptions.Domain options,
         Realm = ToUpper env (KerbruteSessionOptions.Domain options),
         Kdcs = kdcs,
         ConfigString = configstring,
         Config = Some cfg2,
         Verbose = KerbruteSessionOptions.Verbose options,
         SafeMode = KerbruteSessionOptions.SafeMode options,
         HashFile = (if HashFilename options \<noteq> [] then Some \<lparr>Name = HashFilename options\<rparr> else None),
         Logger = Some (case logger options of
                          None \<Rightarrow> NewLogger (KerbruteSessionOptions.Verbose options) []
                        | Some l \<Rightarrow> l)\<rparr>"
      "err = (case err0 of
          None \<Rightarrow> None
        | Some e \<Rightarrow> Some (OtherError (''Couldn't find any KDCs for realm '' @
                     ToUpper env (KerbruteSessionOptions.Domain options) @
                     ''. Please specify a Domain Controller'')))"
proof (cases "KerbruteSessionOptions.Domain options = []")
  case True
  from NewKerbruteSession_empty_domain [OF True, of env w] res
  have "k = zeroSession" "err = Some (OtherError ''domain must not be empty'')"
    by simp_all
  then show thesis using zero by simp
next
  case dom: False
  show thesis
  proof (cases "HashFilename options \<noteq> [] \<and> OpenFile_fault env (HashFilename options) \<noteq> None")
    case True
    then obtain e where e: "HashFilename options \<noteq> []" "OpenFile_fault env (HashFilename options) = Some e"
      by auto
    from NewKerbruteSession_open_fails [OF dom e, of w] res have "k = zeroSession" "err = Some e"
      by simp_all
    then show thesis using zero by simp
  next
    case False
    then have opened: "HashFilename options = [] \<or> OpenFile_fault env (HashFilename options) = None"
      by auto
    obtain configstring where build:
      "buildKrb5Template (ToUpper env (KerbruteSessionOptions.Domain options)) (DomainController options) = Returned configstring"
      using buildKrb5Template_Returned [of "ToUpper env (KerbruteSessionOptions.Domain options)" "DomainController options"]
      by (cases "buildKrb5Template (ToUpper env (KerbruteSessionOptions.Domain options)) (DomainController options)") auto
    obtain cfg perr where parse: "NewFromString env configstring = (cfg, perr)"
      by (cases "NewFromString env configstring") auto
    have "perr = None"
    proof (cases perr)
      case None
      then show ?thesis .
    next
      case (Some e)
      with NewKerbruteSession_parse_fails [OF dom opened build, of cfg e w] parse res
      show ?thesis by simp
    qed
    with parse have parse': "NewFromString env configstring = (cfg, None)" by simp
    define cfg1 where "cfg1 = WithContext env (if Socks5Proxy options \<noteq> [] then EnableSocks5 env cfg (Socks5Proxy options) (Socks5Username options) (Socks5Password options) else cfg)"
    define cfg2 where "cfg2 = (if Downgrade options then cfg1\<lparr>LibDefaults := (LibDefaults cfg1)\<lparr>DefaultTktEnctypeIDs := [23]\<rparr>\<rparr> else cfg1)"
    obtain n kdcs err0 where kdc: "GetKDCs env cfg2 (ToUpper env (KerbruteSessionOptions.Domain options)) False = (n, kdcs, err0)"
      by (cases "GetKDCs env cfg2 (ToUpper env (KerbruteSessionOptions.Domain options)) False") auto
    from NewKerbruteSession_assembles [OF dom opened build parse' cfg1_def cfg2_def kdc, of w] res
    have "k = \<lparr>Domain = KerbruteSessionOptions.Domain options,
         Realm = ToUpper env (KerbruteSessionOptions.Domain options),
         Kdcs = kdcs,
         ConfigString = configstring,
         Config = Some cfg2,
         Verbose = KerbruteSessionOptions.Verbose options,
         SafeMode = KerbruteSessionOptions.SafeMode options,
         HashFile = (if HashFilename options \<noteq> [] then Some \<lparr>Name = HashFilename options\<rparr> else None),
         Logger = Some (case logger options of
                          None \<Rightarrow> NewLogger (KerbruteSessionOptions.Verbose options) []
                        | Some l \<Rightarrow> l)\<rparr>"
      and "err = (case err0 of
          None \<Rightarrow> None
        | Some e \<Rightarrow> Some (OtherError (''Couldn't find any KDCs for realm '' @
                     ToUpper env (KerbruteSessionOptions.Domain options) @
                     ''. Please specify a Domain Controller'')))"
      by simp_all
    with dom opened build parse' cfg1_def cfg2_def kdc show thesis by (rule assembled)
  qed
qed

lemma NewKerbruteSession_fst_cases:
  assumes "fst (NewKerbruteSession env options w) = Returned (k, err)"
  obtains w' where "NewKerbruteSession env options w = (Returned (k, err), w')"
  using assms by (cases "NewKerbruteSession env options w") auto

lemma NewKerbruteSession_Logger:
  assumes "fst (NewKerbruteSession env options w) = Returned (k, None)"
  shows "\<exists>lg. Logger k = Some lg"
proof -
  from assms obtain w' where "NewKerbruteSession env options w = (Returned (k, None), w')"
    by (rule NewKerbruteSession_fst_cases)
  then show ?thesis
    by (cases rule: NewKerbruteSession_Returned_cases) simp_all
qed

subsection \<open>Runs of method calls\<close>

lemma fst_invoke: "fst (invoke env op s) = fst s"
  by (cases op; cases s) simp_all

lemma fst_fold_invoke: "fst (fold (invoke env) ops s) = fst s"
  by (induction ops arbitrary: s) (simp_all add: fst_invoke)

subsection \<open>The hash exporter\<close>

lemma calls_DumpASRepHash [simp]: "calls (snd (DumpASRepHash env k asrep w)) = calls w"
  and stdout_DumpASRepHash [simp]: "stdout (snd (DumpASRepHash env k asrep w)) = stdout w"
  by (auto simp add: DumpASRepHash_def Let_def prod_eq_iff split: option.splits prod.splits)

lemma DumpASRepHash_Returned:
  "Logger k = Some lg \<Longrightarrow> fst (DumpASRepHash env k asrep w) = Returned ()"
  by (simp add: DumpASRepHash_def Let_def split: option.splits prod.splits)

lemma DumpASRepHash_files:
  "Logger k = Some lg \<Longrightarrow>
   files (snd (DumpASRepHash env k asrep w)) =
     (case ASRepToHashcat env asrep of
        (hash, Some e) \<Rightarrow> files w
      | (hash, None) \<Rightarrow>
          (case HashFile k of
             None \<Rightarrow> files w
           | Some f \<Rightarrow> files (snd (WriteString env f (hash @ [nl]) w))))"
  by (auto simp add: DumpASRepHash_def Let_def prod_eq_iff files_WriteString contents_def split: option.splits prod.splits)

lemma DumpASRepHash_files_cong:
  assumes "Logger k = Some lg" and "files w1 = files w"
  shows "files (snd (DumpASRepHash env k asrep w1)) = files (snd (DumpASRepHash env k asrep w))"
  using assms
  by (simp add: DumpASRepHash_files files_WriteString contents_def split: prod.splits option.splits)

subsection \<open>The examples\<close>

lemma emptyWorld_fields:
  "files emptyWorld = Map.empty" "contents emptyWorld name = []"
  "stdout emptyWorld = []" "logged emptyWorld = []" "calls emptyWorld = []"
  by (simp_all add: emptyWorld_def contents_def)

lemma ToUpper_example: "ToUpper exampleEnv ''example.com'' = ''EXAMPLE.COM''"
  by (simp add: exampleEnv_def asciiUpper_def)

lemma buildKrb5Template_example:
  "buildKrb5Template ''EXAMPLE.COM'' ''dc1.example.com'' = Returned exampleConfigString"
  by (simp add: buildKrb5Template_KDC htmlEscaper_def htmlReplacement_def exampleConfigString_def)

lemma exampleSession_constructed:
  "fst (NewKerbruteSession exampleEnv exampleOptions emptyWorld) = Returned (exampleSession, None)"
proof -
  have 1: "KerbruteSessionOptions.Domain exampleOptions \<noteq> []"
    by (simp add: exampleOptions_def)
  have 2: "HashFilename exampleOptions = [] \<or> OpenFile_fault exampleEnv (HashFilename exampleOptions) = None"
    by (simp add: exampleEnv_def)
  have 3: "buildKrb5Template (ToUpper exampleEnv (KerbruteSessionOptions.Domain exampleOptions))
             (DomainController exampleOptions) = Returned exampleConfigString"
    using ToUpper_example buildKrb5Template_example by (simp add: exampleOptions_def)
  show ?thesis
    using NewKerbruteSession_assembles [OF 1 2 3, of _ _ _ _ _ _ emptyWorld] ToUpper_example
    by (simp add: exampleEnv_def exampleOptions_def exampleSession_def)
qed

lemma noKdcSession_constructed:
  "fst (NewKerbruteSession noKdcEnv exampleOptions emptyWorld) =
     Returned (noKdcSession,
       Some (OtherError ''Couldn't find any KDCs for realm EXAMPLE.COM. Please specify a Domain Controller''))"
proof -
  have u: "ToUpper noKdcEnv ''example.com'' = ''EXAMPLE.COM''"
    using ToUpper_example by (simp add: noKdcEnv_def)
  have 1: "KerbruteSessionOptions.Domain exampleOptions \<noteq> []"
    by (simp add: exampleOptions_def)
  have 2: "HashFilename exampleOptions = [] \<or> OpenFile_fault noKdcEnv (HashFilename exampleOptions) = None"
    by (simp add: noKdcEnv_def exampleEnv_def)
  have 3: "buildKrb5Template (ToUpper noKdcEnv (KerbruteSessionOptions.Domain exampleOptions))
             (DomainController exampleOptions) = Returned exampleConfigString"
    using u buildKrb5Template_example by (simp add: exampleOptions_def)
  show ?thesis
    using NewKerbruteSession_assembles [OF 1 2 3, of _ _ _ _ _ _ emptyWorld] u
    by (simp add: noKdcEnv_def exampleEnv_def exampleOptions_def exampleSession_def noKdcSession_def)
qed

lemma exampleSession_fields:
  "Realm exampleSession = ''EXAMPLE.COM''"
  "HashFile exampleSession = Some \<lparr>Name = ''hashes.txt''\<rparr>"
  "Logger exampleSession = Some (NewLogger False [])"
  by (simp_all add: exampleSession_def)

lemma example_request:
  "NewASReqForTGT exampleEnv
     (Credentials.Domain (Credentials (NewWithPassword exampleEnv username (Realm exampleSession) ''foobar'' (Config exampleSession) [DisablePAFXFAST True])))
     (Client.Config (NewWithPassword exampleEnv username (Realm exampleSession) ''foobar'' (Config exampleSession) [DisablePAFXFAST True]))
     (Credentials.CName (Credentials (NewWithPassword exampleEnv username (Realm exampleSession) ''foobar'' (Config exampleSession) [DisablePAFXFAST True])))
   = (''AS-REQ '' @ username @ ''@EXAMPLE.COM'', None)"
  by (simp add: exampleEnv_def exampleSession_fields PrincipalNameString_def)

lemma example_marshal: "Marshal exampleEnv req = (req, None)"
  by (simp add: exampleEnv_def)

section \<open>The claims\<close>

text \<open>
  Claim C1. When the request was marshalled and the KDC's answer to it is a Kerberos
  error with the code \<open>KDC_ERR_PREAUTH_REQUIRED\<close>, \<open>TestUsername\<close> returns
  \<open>(true, nil)\<close> and leaves every file, the hash file among them, as it was.
\<close>

theorem TestUsername_preauth_required:
  assumes "cl = NewWithPassword env username (Realm k) ''foobar'' (Config k) [DisablePAFXFAST True]"
    and "NewASReqForTGT env (Credentials.Domain (Credentials cl)) (Client.Config cl)
           (Credentials.CName (Credentials cl)) = (req, e0)"
    and "Marshal env req = (b, None)"
    and "SendToKDC env cl b (Realm k) = (rb, Some (KRBError KDC_ERR_PREAUTH_REQUIRED t))"
  shows "fst (TestUsername env k username w) = Returned (True, None) \<and>
         files (snd (TestUsername env k username w)) = files w"
  using assms by (simp add: TestUsername_def Let_def split: option.splits)

theorem TestUsername_preauth_required_witness:
  "SendToKDC exampleEnv
     (NewWithPassword exampleEnv ''alice'' (Realm exampleSession) ''foobar'' (Config exampleSession) [DisablePAFXFAST True])
     ''AS-REQ alice@EXAMPLE.COM'' (Realm exampleSession)
     = ([], Some (KRBError KDC_ERR_PREAUTH_REQUIRED ''KDC_ERR_PREAUTH_REQUIRED'')) \<and>
   fst (TestUsername exampleEnv exampleSession ''alice'' emptyWorld) = Returned (True, None) \<and>
   files (snd (TestUsername exampleEnv exampleSession ''alice'' emptyWorld)) = files emptyWorld"
proof -
  have kdc: "SendToKDC exampleEnv
     (NewWithPassword exampleEnv ''alice'' (Realm exampleSession) ''foobar'' (Config exampleSession) [DisablePAFXFAST True])
     ''AS-REQ alice@EXAMPLE.COM'' (Realm exampleSession)
     = ([], Some (KRBError KDC_ERR_PREAUTH_REQUIRED ''KDC_ERR_PREAUTH_REQUIRED''))"
    by (simp add: exampleEnv_def KDC_ERR_PREAUTH_REQUIRED_def)
  have req: "NewASReqForTGT exampleEnv
     (Credentials.Domain (Credentials (NewWithPassword exampleEnv ''alice'' (Realm exampleSession) ''foobar'' (Config exampleSession) [DisablePAFXFAST True])))
     (Client.Config (NewWithPassword exampleEnv ''alice'' (Realm exampleSession) ''foobar'' (Config exampleSession) [DisablePAFXFAST True]))
     (Credentials.CName (Credentials (NewWithPassword exampleEnv ''alice'' (Realm exampleSession) ''foobar'' (Config exampleSession) [DisablePAFXFAST True])))
   = (''AS-REQ alice@EXAMPLE.COM'', None)"
    using example_request [of "''alice''"] by simp
  from TestUsername_preauth_required [OF refl req example_marshal kdc, of emptyWorld] kdc
  show ?thesis by simp
qed

text \<open>
  Claim C2. On a constructed session, when the request was marshalled, \<open>SendToKDC\<close>
  gave an answer and no error, and the answer unmarshals as an AS-REP, \<open>TestUsername\<close>
  returns \<open>(true, nil)\<close> and the files are what one call of \<open>DumpASRepHash\<close> on
  that AS-REP makes of them: when the conversion succeeds, the session has a hash
  file and the write does not fail, that file has gained the hash and a newline, and
  no other file has changed.
\<close>

theorem TestUsername_no_preauth:
  assumes "fst (NewKerbruteSession env0 options w0) = Returned (k, None)"
    and "cl = NewWithPassword env username (Realm k) ''foobar'' (Config k) [DisablePAFXFAST True]"
    and "NewASReqForTGT env (Credentials.Domain (Credentials cl)) (Client.Config cl)
           (Credentials.CName (Credentials cl)) = (req, e0)"
    and "Marshal env req = (b, None)"
    and "SendToKDC env cl b (Realm k) = (rb, None)"
    and "Unmarshal env rb = (asrep, None)"
  shows "fst (TestUsername env k username w) = Returned (True, None) \<and>
         files (snd (TestUsername env k username w)) = files (snd (DumpASRepHash env k asrep w)) \<and>
         (ASRepToHashcat env asrep = (hash, None) \<and> HashFile k = Some f \<and>
          WriteString_fault env f (hash @ [nl]) = None \<longrightarrow>
            files (snd (TestUsername env k username w)) =
              (files w)(Name f \<mapsto> contents w (Name f) @ hash @ [nl]))"
proof -
  from NewKerbruteSession_Logger [OF assms(1)] obtain lg where lg: "Logger k = Some lg" ..
  define w2 where "w2 = (case e0 of None \<Rightarrow> w | Some e \<Rightarrow> Printf (Error e) w)
                          \<lparr>calls := calls (case e0 of None \<Rightarrow> w | Some e \<Rightarrow> Printf (Error e) w) @ [SendToKDC_call b (Realm k)]\<rparr>"
  have fw2: "files w2 = files w"
    by (simp add: w2_def split: option.splits)
  have run: "TestUsername env k username w =
               (Returned (True, None), snd (DumpASRepHash env k asrep w2))"
    using assms(2-6) DumpASRepHash_Returned [OF lg, of env asrep w2]
    by (simp add: TestUsername_def Let_def w2_def prod_eq_iff split: prod.splits outcome.splits)
  have same: "files (snd (TestUsername env k username w)) = files (snd (DumpASRepHash env k asrep w))"
    using run DumpASRepHash_files_cong [OF lg fw2] by simp
  have "files (snd (DumpASRepHash env k asrep w)) = (files w)(Name f \<mapsto> contents w (Name f) @ hash @ [nl])"
    if "ASRepToHashcat env asrep = (hash, None)" "HashFile k = Some f"
       "WriteString_fault env f (hash @ [nl]) = None"
    using that lg by (simp add: DumpASRepHash_files files_WriteString)
  with run same show ?thesis by simp
qed

theorem TestUsername_no_preauth_witness:
  "fst (NewKerbruteSession exampleEnv exampleOptions emptyWorld) = Returned (exampleSession, None) \<and>
   SendToKDC exampleEnv
     (NewWithPassword exampleEnv ''bob'' (Realm exampleSession) ''foobar'' (Config exampleSession) [DisablePAFXFAST True])
     ''AS-REQ bob@EXAMPLE.COM'' (Realm exampleSession) = (''AS-REP bob'', None) \<and>
   Unmarshal exampleEnv ''AS-REP bob'' = (bobASRep, None) \<and>
   fst (TestUsername exampleEnv exampleSession ''bob'' emptyWorld) = Returned (True, None) \<and>
   files (snd (TestUsername exampleEnv exampleSession ''bob'' emptyWorld)) =
     [''hashes.txt'' \<mapsto> ''$krb5asrep$23$bob'' @ [nl]]"
proof -
  have r: "NewASReqForTGT exampleEnv
     (Credentials.Domain (Credentials (NewWithPassword exampleEnv ''bob'' (Realm exampleSession) ''foobar'' (Config exampleSession) [DisablePAFXFAST True])))
     (Client.Config (NewWithPassword exampleEnv ''bob'' (Realm exampleSession) ''foobar'' (Config exampleSession) [DisablePAFXFAST True]))
     (Credentials.CName (Credentials (NewWithPassword exampleEnv ''bob'' (Realm exampleSession) ''foobar'' (Config exampleSession) [DisablePAFXFAST True])))
   = (''AS-REQ bob@EXAMPLE.COM'', None)"
    using example_request [of "''bob''"] by simp
  have m: "Marshal exampleEnv ''AS-REQ bob@EXAMPLE.COM'' = (''AS-REQ bob@EXAMPLE.COM'', None)"
    by (rule example_marshal)
  have s: "SendToKDC exampleEnv
     (NewWithPassword exampleEnv ''bob'' (Realm exampleSession) ''foobar'' (Config exampleSession) [DisablePAFXFAST True])
     ''AS-REQ bob@EXAMPLE.COM'' (Realm exampleSession) = (''AS-REP bob'', None)"
    by (simp add: exampleEnv_def)
  have u: "Unmarshal exampleEnv ''AS-REP bob'' = (bobASRep, None)"
    by (simp add: exampleEnv_def bobASRep_def)
  have h: "ASRepToHashcat exampleEnv bobASRep = (''$krb5asrep$23$bob'', None) \<and>
        HashFile exampleSession = Some \<lparr>Name = ''hashes.txt''\<rparr> \<and>
        WriteString_fault exampleEnv \<lparr>Name = ''hashes.txt''\<rparr> (''$krb5asrep$23$bob'' @ [nl]) = None"
    by (simp add: exampleEnv_def bobASRep_def PrincipalNameString_def exampleSession_fields)
  from TestUsername_no_preauth [OF exampleSession_constructed refl r m s u,
      where hash = "''$krb5asrep$23$bob''" and f = "\<lparr>Name = ''hashes.txt''\<rparr>" and w = emptyWorld] h
  have "fst (TestUsername exampleEnv exampleSession ''bob'' emptyWorld) = Returned (True, None)"
    and "files (snd (TestUsername exampleEnv exampleSession ''bob'' emptyWorld)) =
       (files emptyWorld)(Name \<lparr>Name = ''hashes.txt''\<rparr> \<mapsto>
          contents emptyWorld (Name \<lparr>Name = ''hashes.txt''\<rparr>) @ ''$krb5asrep$23$bob'' @ [nl])"
    by blast+
  then have "fst (TestUsername exampleEnv exampleSession ''bob'' emptyWorld) = Returned (True, None) \<and>
     files (snd (TestUsername exampleEnv exampleSession ''bob'' emptyWorld)) =
       [''hashes.txt'' \<mapsto> ''$krb5asrep$23$bob'' @ [nl]]"
    by (simp add: emptyWorld_fields)
  with exampleSession_constructed s u show ?thesis by blast
qed

text \<open>
  Claim C3. After a request that was marshalled: a Kerberos error with another code
  than \<open>KDC_ERR_PREAUTH_REQUIRED\<close> is returned as it is with \<open>false\<close>; an error
  of \<open>SendToKDC\<close> that is not a Kerberos error is returned as it is with \<open>false\<close>;
  an answer that does not unmarshal as an AS-REP gives \<open>false\<close> and the error of
  \<open>Unmarshal\<close>. In the three cases no file changes.
\<close>

theorem TestUsername_error_results:
  assumes "cl = NewWithPassword env username (Realm k) ''foobar'' (Config k) [DisablePAFXFAST True]"
    and "NewASReqForTGT env (Credentials.Domain (Credentials cl)) (Client.Config cl)
           (Credentials.CName (Credentials cl)) = (req, e0)"
    and "Marshal env req = (b, None)"
  shows "(SendToKDC env cl b (Realm k) = (rb, Some (KRBError c t)) \<and> c \<noteq> KDC_ERR_PREAUTH_REQUIRED \<longrightarrow>
            fst (TestUsername env k username w) = Returned (False, Some (KRBError c t)) \<and>
            files (snd (TestUsername env k username w)) = files w) \<and>
         (SendToKDC env cl b (Realm k) = (rb, Some (OtherError t)) \<longrightarrow>
            fst (TestUsername env k username w) = Returned (False, Some (OtherError t)) \<and>
            files (snd (TestUsername env k username w)) = files w) \<and>
         (SendToKDC env cl b (Realm k) = (rb, None) \<and> Unmarshal env rb = (asrep, Some e) \<longrightarrow>
            fst (TestUsername env k username w) = Returned (False, Some e) \<and>
            files (snd (TestUsername env k username w)) = files w)"
  using assms by (simp add: TestUsername_def Let_def split: option.splits)

theorem TestUsername_error_results_witness:
  "fst (TestUsername exampleEnv exampleSession ''carol'' emptyWorld) =
     Returned (False, Some (KRBError 6 ''KDC_ERR_C_PRINCIPAL_UNKNOWN'')) \<and>
   files (snd (TestUsername exampleEnv exampleSession ''carol'' emptyWorld)) = files emptyWorld \<and>
   fst (TestUsername timeoutEnv exampleSession ''bob'' emptyWorld) =
     Returned (False, Some (OtherError ''dial tcp 10.0.0.1:88: i/o timeout'')) \<and>
   files (snd (TestUsername timeoutEnv exampleSession ''bob'' emptyWorld)) = files emptyWorld \<and>
   fst (TestUsername garbageEnv exampleSession ''bob'' emptyWorld) =
     Returned (False, Some (OtherError ''asn1: structure error'')) \<and>
   files (snd (TestUsername garbageEnv exampleSession ''bob'' emptyWorld)) = files emptyWorld"
proof -
  have r1: "NewASReqForTGT exampleEnv
     (Credentials.Domain (Credentials (NewWithPassword exampleEnv ''carol'' (Realm exampleSession) ''foobar'' (Config exampleSession) [DisablePAFXFAST True])))
     (Client.Config (NewWithPassword exampleEnv ''carol'' (Realm exampleSession) ''foobar'' (Config exampleSession) [DisablePAFXFAST True]))
     (Credentials.CName (Credentials (NewWithPassword exampleEnv ''carol'' (Realm exampleSession) ''foobar'' (Config exampleSession) [DisablePAFXFAST True])))
   = (''AS-REQ carol@EXAMPLE.COM'', None)"
    using example_request [of "''carol''"] by simp
  have m1: "Marshal exampleEnv ''AS-REQ carol@EXAMPLE.COM'' = (''AS-REQ carol@EXAMPLE.COM'', None)"
    by (rule example_marshal)
  have k1: "SendToKDC exampleEnv
     (NewWithPassword exampleEnv ''carol'' (Realm exampleSession) ''foobar'' (Config exampleSession) [DisablePAFXFAST True])
     ''AS-REQ carol@EXAMPLE.COM'' (Realm exampleSession)
     = ([], Some (KRBError 6 ''KDC_ERR_C_PRINCIPAL_UNKNOWN'')) \<and> (6 :: int32) \<noteq> KDC_ERR_PREAUTH_REQUIRED"
    by (simp add: exampleEnv_def KDC_ERR_PREAUTH_REQUIRED_def)
  have r2: "NewASReqForTGT timeoutEnv
     (Credentials.Domain (Credentials (NewWithPassword timeoutEnv ''bob'' (Realm exampleSession) ''foobar'' (Config exampleSession) [DisablePAFXFAST True])))
     (Client.Config (NewWithPassword timeoutEnv ''bob'' (Realm exampleSession) ''foobar'' (Config exampleSession) [DisablePAFXFAST True]))
     (Credentials.CName (Credentials (NewWithPassword timeoutEnv ''bob'' (Realm exampleSession) ''foobar'' (Config exampleSession) [DisablePAFXFAST True])))
   = (''AS-REQ bob@EXAMPLE.COM'', None)"
    using example_request [of "''bob''"] by (simp add: timeoutEnv_def)
  have m2: "Marshal timeoutEnv ''AS-REQ bob@EXAMPLE.COM'' = (''AS-REQ bob@EXAMPLE.COM'', None)"
    by (simp add: timeoutEnv_def example_marshal)
  have k2: "SendToKDC timeoutEnv
     (NewWithPassword timeoutEnv ''bob'' (Realm exampleSession) ''foobar'' (Config exampleSession) [DisablePAFXFAST True])
     ''AS-REQ bob@EXAMPLE.COM'' (Realm exampleSession)
     = ([], Some (OtherError ''dial tcp 10.0.0.1:88: i/o timeout''))"
    by (simp add: timeoutEnv_def)
  have r3: "NewASReqForTGT garbageEnv
     (Credentials.Domain (Credentials (NewWithPassword garbageEnv ''bob'' (Realm exampleSession) ''foobar'' (Config exampleSession) [DisablePAFXFAST True])))
     (Client.Config (NewWithPassword garbageEnv ''bob'' (Realm exampleSession) ''foobar'' (Config exampleSession) [DisablePAFXFAST True]))
     (Credentials.CName (Credentials (NewWithPassword garbageEnv ''bob'' (Realm exampleSession) ''foobar'' (Config exampleSession) [DisablePAFXFAST True])))
   = (''AS-REQ bob@EXAMPLE.COM'', None)"
    using example_request [of "''bob''"] by (simp add: garbageEnv_def)
  have m3: "Marshal garbageEnv ''AS-REQ bob@EXAMPLE.COM'' = (''AS-REQ bob@EXAMPLE.COM'', None)"
    by (simp add: garbageEnv_def example_marshal)
  have k3: "SendToKDC garbageEnv
     (NewWithPassword garbageEnv ''bob'' (Realm exampleSession) ''foobar'' (Config exampleSession) [DisablePAFXFAST True])
     ''AS-REQ bob@EXAMPLE.COM'' (Realm exampleSession) = (''AS-REP bob'', None) \<and>
     Unmarshal garbageEnv ''AS-REP bob'' =
       (\<lparr>CName = \<lparr>NameType = 0, NameString = []\<rparr>, ASRepOther = []\<rparr>, Some (OtherError ''asn1: structure error''))"
    by (simp add: garbageEnv_def exampleEnv_def)
  from TestUsername_error_results [OF refl r1 m1, of "[]" 6 "''KDC_ERR_C_PRINCIPAL_UNKNOWN''" emptyWorld] k1
  have c1: "fst (TestUsername exampleEnv exampleSession ''carol'' emptyWorld) =
     Returned (False, Some (KRBError 6 ''KDC_ERR_C_PRINCIPAL_UNKNOWN'')) \<and>
     files (snd (TestUsername exampleEnv exampleSession ''carol'' emptyWorld)) = files emptyWorld"
    by blast
  from TestUsername_error_results [OF refl r2 m2, of "[]" _ "''dial tcp 10.0.0.1:88: i/o timeout''" emptyWorld] k2
  have c2: "fst (TestUsername timeoutEnv exampleSession ''bob'' emptyWorld) =
     Returned (False, Some (OtherError ''dial tcp 10.0.0.1:88: i/o timeout'')) \<and>
     files (snd (TestUsername timeoutEnv exampleSession ''bob'' emptyWorld)) = files emptyWorld"
    by blast
  from TestUsername_error_results [OF refl r3 m3, of "''AS-REP bob''" _ _ emptyWorld] k3
  have c3: "fst (TestUsername garbageEnv exampleSession ''bob'' emptyWorld) =
     Returned (False, Some (OtherError ''asn1: structure error'')) \<and>
     files (snd (TestUsername garbageEnv exampleSession ''bob'' emptyWorld)) = files emptyWorld"
    by blast
  from c1 c2 c3 show ?thesis by blast
qed

text \<open>
  Claim C4, as the specification states it, fails: when no KDC is found, the error is
  returned together with the assembled session, not with the zero value.
\<close>

theorem NewKerbruteSession_error_with_session:
  "snd (result (fst (NewKerbruteSession noKdcEnv exampleOptions emptyWorld))) =
     Some (OtherError ''Couldn't find any KDCs for realm EXAMPLE.COM. Please specify a Domain Controller'') \<and>
   fst (result (fst (NewKerbruteSession noKdcEnv exampleOptions emptyWorld))) \<noteq> zeroSession \<and>
   Realm (fst (result (fst (NewKerbruteSession noKdcEnv exampleOptions emptyWorld)))) = ''EXAMPLE.COM'' \<and>
   ConfigString (fst (result (fst (NewKerbruteSession noKdcEnv exampleOptions emptyWorld)))) = exampleConfigString \<and>
   HashFile (fst (result (fst (NewKerbruteSession noKdcEnv exampleOptions emptyWorld)))) = Some \<lparr>Name = ''hashes.txt''\<rparr> \<and>
   Logger (fst (result (fst (NewKerbruteSession noKdcEnv exampleOptions emptyWorld)))) = Some (NewLogger False [])"
proof -
  have "Realm noKdcSession \<noteq> Realm (zeroSession :: string KerbruteSession)"
    by (simp add: noKdcSession_def exampleSession_def zeroSession_def)
  then have "noKdcSession \<noteq> zeroSession" by auto
  then show ?thesis
    by (simp add: noKdcSession_constructed) (simp add: noKdcSession_def exampleSession_def)
qed

text \<open>
  Claim C4, amended. An empty domain gives the zero session and the error
  \<open>domain must not be empty\<close>, before anything else is done. A hash file that cannot
  be opened gives the zero session and the error of \<open>os.OpenFile\<close>. A configuration
  text that does not parse is a panic, not a result. Every other run returns the
  assembled session, and with it an error exactly when \<open>GetKDCs\<close> fails on its
  configuration: the error then names the realm and asks for a domain controller.
\<close>

theorem NewKerbruteSession_error_results:
  "(KerbruteSessionOptions.Domain options = [] \<longrightarrow>
      NewKerbruteSession env options w =
        (Returned (zeroSession, Some (OtherError ''domain must not be empty'')), w)) \<and>
   (KerbruteSessionOptions.Domain options \<noteq> [] \<and> HashFilename options \<noteq> [] \<and>
    OpenFile_fault env (HashFilename options) = Some e \<longrightarrow>
      NewKerbruteSession env options w = (Returned (zeroSession, Some e), w)) \<and>
   (KerbruteSessionOptions.Domain options \<noteq> [] \<and>
    (HashFilename options = [] \<or> OpenFile_fault env (HashFilename options) = None) \<and>
    buildKrb5Template (ToUpper env (KerbruteSessionOptions.Domain options)) (DomainController options) =
      Returned configstring \<and>
    NewFromString env configstring = (cfg, Some pe) \<longrightarrow>
      fst (NewKerbruteSession env options w) = Panicked pe) \<and>
   (KerbruteSessionOptions.Domain options \<noteq> [] \<and>
    (HashFilename options = [] \<or> OpenFile_fault env (HashFilename options) = None) \<and>
    buildKrb5Template (ToUpper env (KerbruteSessionOptions.Domain options)) (DomainController options) =
      Returned configstring \<and>
    NewFromString env configstring = (cfg, None) \<longrightarrow>
      is_Returned (fst (NewKerbruteSession env options w)) \<and>
      fst (result (fst (NewKerbruteSession env options w))) \<noteq> zeroSession) \<and>
   (fst (NewKerbruteSession env options w) = Returned (k, err) \<and> k \<noteq> zeroSession \<longrightarrow>
      Realm k = ToUpper env (KerbruteSessionOptions.Domain options) \<and>
      KerbruteSession.Domain k = KerbruteSessionOptions.Domain options \<and>
      buildKrb5Template (Realm k) (DomainController options) = Returned (ConfigString k) \<and>
      Logger k \<noteq> None \<and>
      (case Config k of
         None \<Rightarrow> False
       | Some c \<Rightarrow>
           err = (case snd (snd (GetKDCs env c (Realm k) False)) of
                    None \<Rightarrow> None
                  | Some ge \<Rightarrow>
                      Some (OtherError (''Couldn't find any KDCs for realm '' @ Realm k @
                                        ''. Please specify a Domain Controller'')))))"
proof -
  have "Realm k = ToUpper env (KerbruteSessionOptions.Domain options) \<and>
      KerbruteSession.Domain k = KerbruteSessionOptions.Domain options \<and>
      buildKrb5Template (Realm k) (DomainController options) = Returned (ConfigString k) \<and>
      Logger k \<noteq> None \<and>
      (case Config k of
         None \<Rightarrow> False
       | Some c \<Rightarrow>
           err = (case snd (snd (GetKDCs env c (Realm k) False)) of
                    None \<Rightarrow> None
                  | Some ge \<Rightarrow>
                      Some (OtherError (''Couldn't find any KDCs for realm '' @ Realm k @
                                        ''. Please specify a Domain Controller''))))"
    if "fst (NewKerbruteSession env options w) = Returned (k, err)" "k \<noteq> zeroSession"
  proof -
    from that(1) obtain w' where "NewKerbruteSession env options w = (Returned (k, err), w')"
      by (rule NewKerbruteSession_fst_cases)
    then show ?thesis
    proof (cases rule: NewKerbruteSession_Returned_cases)
      case zero
      with that(2) show ?thesis by simp
    next
      case (assembled configstring cfg cfg1 cfg2 n kdcs err0)
      from assembled(3,7,8,9) show ?thesis by (simp split: option.splits)
    qed
  qed
  moreover have "is_Returned (fst (NewKerbruteSession env options w)) \<and>
      fst (result (fst (NewKerbruteSession env options w))) \<noteq> zeroSession"
    if dom: "KerbruteSessionOptions.Domain options \<noteq> []"
      and opened: "HashFilename options = [] \<or> OpenFile_fault env (HashFilename options) = None"
      and build: "buildKrb5Template (ToUpper env (KerbruteSessionOptions.Domain options))
                    (DomainController options) = Returned configstring"
      and parse: "NewFromString env configstring = (cfg, None)"
  proof -
    define cfg1 where "cfg1 = WithContext env (if Socks5Proxy options \<noteq> [] then EnableSocks5 env cfg (Socks5Proxy options) (Socks5Username options) (Socks5Password options) else cfg)"
    define cfg2 where "cfg2 = (if Downgrade options then cfg1\<lparr>LibDefaults := (LibDefaults cfg1)\<lparr>DefaultTktEnctypeIDs := [23]\<rparr>\<rparr> else cfg1)"
    obtain n kdcs gerr where kdc:
      "GetKDCs env cfg2 (ToUpper env (KerbruteSessionOptions.Domain options)) False = (n, kdcs, gerr)"
      by (cases "GetKDCs env cfg2 (ToUpper env (KerbruteSessionOptions.Domain options)) False") auto
    have "KerbruteSession.Domain (fst (result (fst (NewKerbruteSession env options w)))) =
            KerbruteSessionOptions.Domain options"
      and "is_Returned (fst (NewKerbruteSession env options w))"
      using NewKerbruteSession_assembles [OF dom opened build parse cfg1_def cfg2_def kdc, of w]
      by simp_all
    moreover have "KerbruteSession.Domain (zeroSession :: 'a KerbruteSession) = []"
      by (simp add: zeroSession_def)
    ultimately show ?thesis using dom by auto
  qed
  ultimately show ?thesis
    using NewKerbruteSession_empty_domain [of options env w]
      NewKerbruteSession_open_fails [of options env e w]
      NewKerbruteSession_parse_fails [of options env configstring cfg pe w]
    by blast
qed

theorem NewKerbruteSession_error_results_witness:
  "NewKerbruteSession exampleEnv (exampleOptions\<lparr>KerbruteSessionOptions.Domain := []\<rparr>) emptyWorld =
     (Returned (zeroSession, Some (OtherError ''domain must not be empty'')), emptyWorld) \<and>
   NewKerbruteSession readOnlyEnv exampleOptions emptyWorld =
     (Returned (zeroSession, Some (OtherError ''open hashes.txt: permission denied'')), emptyWorld) \<and>
   fst (NewKerbruteSession unparsableEnv exampleOptions emptyWorld) =
     Panicked (OtherError ''invalid krb5 config'') \<and>
   fst (NewKerbruteSession noKdcEnv exampleOptions emptyWorld) =
     Returned (noKdcSession,
       Some (OtherError ''Couldn't find any KDCs for realm EXAMPLE.COM. Please specify a Domain Controller'')) \<and>
   Realm noKdcSession = ToUpper noKdcEnv ''example.com'' \<and>
   KerbruteSession.Domain noKdcSession = ''example.com'' \<and>
   Logger noKdcSession \<noteq> None"
proof -
  have z: "noKdcSession \<noteq> zeroSession"
  proof
    assume "noKdcSession = zeroSession"
    then have "Realm noKdcSession = Realm (zeroSession :: string KerbruteSession)" by simp
    then show False by (simp add: noKdcSession_def exampleSession_def zeroSession_def)
  qed
  have a: "KerbruteSessionOptions.Domain (exampleOptions\<lparr>KerbruteSessionOptions.Domain := []\<rparr>) = []"
    by simp
  have b: "KerbruteSessionOptions.Domain exampleOptions \<noteq> [] \<and> HashFilename exampleOptions \<noteq> [] \<and>
        OpenFile_fault readOnlyEnv (HashFilename exampleOptions) =
          Some (OtherError ''open hashes.txt: permission denied'')"
    by (simp add: exampleOptions_def readOnlyEnv_def)
  have c: "KerbruteSessionOptions.Domain exampleOptions \<noteq> [] \<and>
        (HashFilename exampleOptions = [] \<or> OpenFile_fault unparsableEnv (HashFilename exampleOptions) = None) \<and>
        buildKrb5Template (ToUpper unparsableEnv (KerbruteSessionOptions.Domain exampleOptions))
          (DomainController exampleOptions) = Returned exampleConfigString \<and>
        NewFromString unparsableEnv exampleConfigString =
          (\<lparr>LibDefaults = \<lparr>DefaultTktEnctypeIDs = [], LibDefaultsOther = []\<rparr>, ConfigOther = []\<rparr>,
           Some (OtherError ''invalid krb5 config''))"
    using ToUpper_example buildKrb5Template_example
    by (simp add: exampleOptions_def unparsableEnv_def exampleEnv_def)
  from NewKerbruteSession_error_results
    [where options = "exampleOptions\<lparr>KerbruteSessionOptions.Domain := []\<rparr>" and env = exampleEnv and w = emptyWorld] a
  have c1: "NewKerbruteSession exampleEnv (exampleOptions\<lparr>KerbruteSessionOptions.Domain := []\<rparr>) emptyWorld =
     (Returned (zeroSession, Some (OtherError ''domain must not be empty'')), emptyWorld)"
    by blast
  from NewKerbruteSession_error_results
    [where options = exampleOptions and env = readOnlyEnv and w = emptyWorld
       and e = "OtherError ''open hashes.txt: permission denied''"] b
  have c2: "NewKerbruteSession readOnlyEnv exampleOptions emptyWorld =
     (Returned (zeroSession, Some (OtherError ''open hashes.txt: permission denied'')), emptyWorld)"
    by blast
  from NewKerbruteSession_error_results
    [where options = exampleOptions and env = unparsableEnv and w = emptyWorld
       and configstring = exampleConfigString and pe = "OtherError ''invalid krb5 config''"
       and cfg = "\<lparr>LibDefaults = \<lparr>DefaultTktEnctypeIDs = [], LibDefaultsOther = []\<rparr>, ConfigOther = []\<rparr>"] c
  have c3: "fst (NewKerbruteSession unparsableEnv exampleOptions emptyWorld) =
     Panicked (OtherError ''invalid krb5 config'')"
    by blast
  from NewKerbruteSession_error_results
    [where options = exampleOptions and env = noKdcEnv and w = emptyWorld and k = noKdcSession
       and err = "Some (OtherError ''Couldn't find any KDCs for realm EXAMPLE.COM. Please specify a Domain Controller'')"]
    noKdcSession_constructed z
  have c4: "Realm noKdcSession = ToUpper noKdcEnv (KerbruteSessionOptions.Domain exampleOptions) \<and>
     KerbruteSession.Domain noKdcSession = KerbruteSessionOptions.Domain exampleOptions \<and>
     Logger noKdcSession \<noteq> None"
    by blast
  from c1 c2 c3 c4 noKdcSession_constructed show ?thesis
    by (simp add: exampleOptions_def)
qed

text \<open>
  Claim C5. A session constructed with \<open>Downgrade\<close> set has a configuration whose
  \<open>DefaultTktEnctypeIDs\<close>, the encryption types the client asks for, is the list of
  the one identifier 23.
\<close>

theorem NewKerbruteSession_downgrade_enctypes:
  assumes "fst (NewKerbruteSession env options w) = Returned (k, None)"
    and "Downgrade options"
  shows "map_option (\<lambda>c. DefaultTktEnctypeIDs (LibDefaults c)) (Config k) = Some [23]"
proof -
  from assms(1) obtain w' where "NewKerbruteSession env options w = (Returned (k, None), w')"
    by (rule NewKerbruteSession_fst_cases)
  then show ?thesis
    using assms(2) by (cases rule: NewKerbruteSession_Returned_cases) simp_all
qed

theorem NewKerbruteSession_downgrade_enctypes_witness:
  "fst (NewKerbruteSession exampleEnv exampleOptions emptyWorld) = Returned (exampleSession, None) \<and>
   Downgrade exampleOptions \<and>
   map_option (\<lambda>c. DefaultTktEnctypeIDs (LibDefaults c)) (Config exampleSession) = Some [23]"
proof -
  have d: "Downgrade exampleOptions" by (simp add: exampleOptions_def)
  from NewKerbruteSession_downgrade_enctypes [OF exampleSession_constructed d] exampleSession_constructed d
  show ?thesis by simp
qed

text \<open>
  Claim C6. The template is the DNS one exactly when the domain controller is empty
  (\<open>buildKrb5Template_selects_DNS\<close>), and realm and domain controller are copied as
  they are when they hold none of the seven bytes that \<open>html/template\<close> escapes
  (\<open>buildKrb5Template_KDC_safe\<close>). They are not copied as they are for every string:
  the domain controller \<open>dc&1\<close> is rendered as \<open>dc&amp;1\<close>.
\<close>

theorem buildKrb5Template_escapes_ampersand:
  "buildKrb5Template ''EXAMPLE.COM'' ''dc&1'' =
     Returned (''[libdefaults]'' @ [nl] @
               ''default_realm = EXAMPLE.COM'' @ [nl] @
               ''[realms]'' @ [nl] @
               ''EXAMPLE.COM = {'' @ [nl] @
               [tab] @ ''kdc = dc&amp;1'' @ [nl] @
               [tab] @ ''admin_server = dc&amp;1'' @ [nl] @
               ''}'' @ [nl])"
  by (simp add: buildKrb5Template_KDC htmlEscaper_def htmlReplacement_def)

text \<open>
  Claim C7. For every domain that \<open>NewKerbruteSession\<close> accepts (it returns a session
  and no error), the realm of the session is the upper case of its domain, and its
  domain is the one of the options. The same holds of the session the caller holds
  after any run of calls of \<open>TestLogin\<close>, \<open>TestUsername\<close> and \<open>DumpASRepHash\<close> on it,
  in any environment and from any world.
\<close>

theorem NewKerbruteSession_realm_is_upper_domain:
  assumes "fst (NewKerbruteSession env options w) = Returned (k, None)"
  shows "Realm k = ToUpper env (KerbruteSession.Domain k) \<and>
         KerbruteSession.Domain k = KerbruteSessionOptions.Domain options \<and>
         Realm (fst (fold (invoke env') ops (k, w'))) =
           ToUpper env (KerbruteSession.Domain (fst (fold (invoke env') ops (k, w'))))"
proof -
  from assms obtain w1 where "NewKerbruteSession env options w = (Returned (k, None), w1)"
    by (rule NewKerbruteSession_fst_cases)
  then have "Realm k = ToUpper env (KerbruteSession.Domain k) \<and>
      KerbruteSession.Domain k = KerbruteSessionOptions.Domain options"
    by (cases rule: NewKerbruteSession_Returned_cases) simp_all
  then show ?thesis by (simp add: fst_fold_invoke)
qed

theorem NewKerbruteSession_realm_is_upper_domain_witness:
  "fst (NewKerbruteSession exampleEnv exampleOptions emptyWorld) = Returned (exampleSession, None) \<and>
   Realm exampleSession = ToUpper exampleEnv (KerbruteSession.Domain exampleSession) \<and>
   KerbruteSession.Domain exampleSession = ''example.com'' \<and>
   Realm exampleSession = ''EXAMPLE.COM'' \<and>
   Realm (fst (fold (invoke exampleEnv)
                 [OpTestUsername ''bob'', OpTestLogin ''carol'' ''hunter2'', OpDumpASRepHash bobASRep]
                 (exampleSession, emptyWorld))) = ''EXAMPLE.COM''"
proof -
  from NewKerbruteSession_realm_is_upper_domain [OF exampleSession_constructed,
      where env' = exampleEnv and w' = emptyWorld
        and ops = "[OpTestUsername ''bob'', OpTestLogin ''carol'' ''hunter2'', OpDumpASRepHash bobASRep]"]
  have "Realm exampleSession = ToUpper exampleEnv (KerbruteSession.Domain exampleSession) \<and>
      KerbruteSession.Domain exampleSession = KerbruteSessionOptions.Domain exampleOptions \<and>
      Realm (fst (fold (invoke exampleEnv)
                 [OpTestUsername ''bob'', OpTestLogin ''carol'' ''hunter2'', OpDumpASRepHash bobASRep]
                 (exampleSession, emptyWorld))) =
        ToUpper exampleEnv (KerbruteSession.Domain (fst (fold (invoke exampleEnv)
                 [OpTestUsername ''bob'', OpTestLogin ''carol'' ''hunter2'', OpDumpASRepHash bobASRep]
                 (exampleSession, emptyWorld))))" .
  moreover have "KerbruteSession.Domain (fst (fold (invoke exampleEnv)
                 [OpTestUsername ''bob'', OpTestLogin ''carol'' ''hunter2'', OpDumpASRepHash bobASRep]
                 (exampleSession, emptyWorld))) = ''example.com''"
    by (simp add: exampleSession_def)
  moreover have "KerbruteSession.Domain exampleSession = ''example.com''"
    "Realm exampleSession = ''EXAMPLE.COM''"
    by (simp_all add: exampleSession_def)
  ultimately show ?thesis
    using exampleSession_constructed ToUpper_example by simp
qed

text \<open>
  Claim C8. \<open>TestLogin\<close> always returns. It returns \<open>(true, nil)\<close> exactly when the
  client is configured and \<open>Login\<close> gives no error. When the client is not
  configured it returns \<open>false\<close> with the error of \<open>IsConfigured\<close>; when \<open>Login\<close>
  fails it returns what \<open>TestLoginError\<close> makes of the error of \<open>Login\<close>, which is
  \<open>false\<close> with that error, whatever the error is.
\<close>

theorem TestLogin_results:
  assumes "cl = NewWithPassword env username (Realm k) password (Config k)
                  [DisablePAFXFAST True, AssumePreAuthentication True]"
  shows "is_Returned (fst (TestLogin env k username password w)) \<and>
         (fst (TestLogin env k username password w) = Returned (True, None) \<longleftrightarrow>
            fst (IsConfigured env cl) \<and> Login env cl = None) \<and>
         (IsConfigured env cl = (False, cerr) \<longrightarrow>
            fst (TestLogin env k username password w) = Returned (False, cerr)) \<and>
         (fst (IsConfigured env cl) \<and> Login env cl = Some e \<longrightarrow>
            fst (TestLogin env k username password w) = Returned (TestLoginError k e) \<and>
            fst (TestLogin env k username password w) = Returned (False, Some e))"
  using assms
  by (auto simp add: TestLogin_def TestLoginError_def Let_def split: prod.splits option.splits)

theorem TestLogin_results_witness:
  "fst (TestLogin exampleEnv exampleSession ''carol'' ''hunter2'' emptyWorld) = Returned (True, None) \<and>
   Login exampleEnv (NewWithPassword exampleEnv ''carol'' (Realm exampleSession) ''Summer2024'' (Config exampleSession)
                  [DisablePAFXFAST True, AssumePreAuthentication True]) =
     Some (KRBError 24 ''KDC_ERR_PREAUTH_FAILED'') \<and>
   fst (TestLogin exampleEnv exampleSession ''carol'' ''Summer2024'' emptyWorld) =
     Returned (False, Some (KRBError 24 ''KDC_ERR_PREAUTH_FAILED'')) \<and>
   fst (TestLogin unconfiguredEnv exampleSession ''carol'' ''hunter2'' emptyWorld) =
     Returned (False, Some (OtherError ''client does not have a username''))"
proof -
  have ok: "fst (IsConfigured exampleEnv (NewWithPassword exampleEnv ''carol'' (Realm exampleSession) ''hunter2'' (Config exampleSession)
                  [DisablePAFXFAST True, AssumePreAuthentication True])) \<and>
        Login exampleEnv (NewWithPassword exampleEnv ''carol'' (Realm exampleSession) ''hunter2'' (Config exampleSession)
                  [DisablePAFXFAST True, AssumePreAuthentication True]) = None"
    by (simp add: exampleEnv_def)
  have bad: "fst (IsConfigured exampleEnv (NewWithPassword exampleEnv ''carol'' (Realm exampleSession) ''Summer2024'' (Config exampleSession)
                  [DisablePAFXFAST True, AssumePreAuthentication True])) \<and>
        Login exampleEnv (NewWithPassword exampleEnv ''carol'' (Realm exampleSession) ''Summer2024'' (Config exampleSession)
                  [DisablePAFXFAST True, AssumePreAuthentication True]) =
          Some (KRBError 24 ''KDC_ERR_PREAUTH_FAILED'')"
    by (simp add: exampleEnv_def)
  have un: "IsConfigured unconfiguredEnv (NewWithPassword unconfiguredEnv ''carol'' (Realm exampleSession) ''hunter2'' (Config exampleSession)
                  [DisablePAFXFAST True, AssumePreAuthentication True]) =
          (False, Some (OtherError ''client does not have a username''))"
    by (simp add: unconfiguredEnv_def)
  from TestLogin_results [OF refl, where env = exampleEnv and k = exampleSession and username = "''carol''"
      and password = "''hunter2''" and w = emptyWorld] ok
  have c1: "fst (TestLogin exampleEnv exampleSession ''carol'' ''hunter2'' emptyWorld) = Returned (True, None)"
    by blast
  from TestLogin_results [OF refl, where env = exampleEnv and k = exampleSession and username = "''carol''"
      and password = "''Summer2024''" and w = emptyWorld and e = "KRBError 24 ''KDC_ERR_PREAUTH_FAILED''"] bad
  have c2: "fst (TestLogin exampleEnv exampleSession ''carol'' ''Summer2024'' emptyWorld) =
     Returned (False, Some (KRBError 24 ''KDC_ERR_PREAUTH_FAILED''))"
    by blast
  from TestLogin_results [OF refl, where env = unconfiguredEnv and k = exampleSession and username = "''carol''"
      and password = "''hunter2''" and w = emptyWorld and cerr = "Some (OtherError ''client does not have a username'')"] un
  have c3: "fst (TestLogin unconfiguredEnv exampleSession ''carol'' ''hunter2'' emptyWorld) =
     Returned (False, Some (OtherError ''client does not have a username''))"
    by blast
  from c1 c2 c3 bad show ?thesis by blast
qed

text \<open>
  Claim C9. On a constructed session \<open>DumpASRepHash\<close> always returns, and it has no
  result that could carry an error. When the conversion fails no file changes. When
  it succeeds and the session has a hash file, the hash and a newline are appended to
  that file and no other file changes; when the write fails after \<open>n\<close> bytes, these
  bytes are in the file, the error is the last line logged, and the function returns
  as before. Without a hash file no file changes.
\<close>

theorem DumpASRepHash_swallows_errors:
  assumes "fst (NewKerbruteSession env0 options w0) = Returned (k, None)"
  shows "fst (DumpASRepHash env k asrep w) = Returned () \<and>
         files (snd (DumpASRepHash env k asrep w)) =
           (case ASRepToHashcat env asrep of
              (hash, Some e) \<Rightarrow> files w
            | (hash, None) \<Rightarrow>
                (case HashFile k of
                   None \<Rightarrow> files w
                 | Some f \<Rightarrow>
                     (case WriteString_fault env f (hash @ [nl]) of
                        None \<Rightarrow> (files w)(Name f \<mapsto> contents w (Name f) @ hash @ [nl])
                      | Some (n, e) \<Rightarrow> (files w)(Name f \<mapsto> contents w (Name f) @ take n (hash @ [nl]))))) \<and>
         (ASRepToHashcat env asrep = (hash, None) \<and> HashFile k = Some f \<and>
          WriteString_fault env f (hash @ [nl]) = Some (n, e) \<longrightarrow>
            last (logged (snd (DumpASRepHash env k asrep w))) =
              (ERROR, ''[!] Error writing hash to file: '' @ Error e))"
proof -
  from NewKerbruteSession_Logger [OF assms] obtain lg where lg: "Logger k = Some lg" ..
  have "last (logged (snd (DumpASRepHash env k asrep w))) =
          (ERROR, ''[!] Error writing hash to file: '' @ Error e)"
    if "ASRepToHashcat env asrep = (hash, None)" "HashFile k = Some f"
       "WriteString_fault env f (hash @ [nl]) = Some (n, e)"
    using that lg by (simp add: DumpASRepHash_def Let_def WriteString_def)
  moreover have "files (snd (DumpASRepHash env k asrep w)) =
           (case ASRepToHashcat env asrep of
              (hash, Some e) \<Rightarrow> files w
            | (hash, None) \<Rightarrow>
                (case HashFile k of
                   None \<Rightarrow> files w
                 | Some f \<Rightarrow>
                     (case WriteString_fault env f (hash @ [nl]) of
                        None \<Rightarrow> (files w)(Name f \<mapsto> contents w (Name f) @ hash @ [nl])
                      | Some (n, e) \<Rightarrow> (files w)(Name f \<mapsto> contents w (Name f) @ take n (hash @ [nl])))))"
    using lg by (simp add: DumpASRepHash_files files_WriteString split: prod.splits option.splits)
  ultimately show ?thesis
    using DumpASRepHash_Returned [OF lg] by blast
qed

theorem DumpASRepHash_swallows_errors_witness:
  "fst (NewKerbruteSession exampleEnv exampleOptions emptyWorld) = Returned (exampleSession, None) \<and>
   fst (DumpASRepHash exampleEnv exampleSession bobASRep emptyWorld) = Returned () \<and>
   files (snd (DumpASRepHash exampleEnv exampleSession bobASRep emptyWorld)) =
     [''hashes.txt'' \<mapsto> ''$krb5asrep$23$bob'' @ [nl]] \<and>
   fst (DumpASRepHash fullDiskEnv exampleSession bobASRep emptyWorld) = Returned () \<and>
   files (snd (DumpASRepHash fullDiskEnv exampleSession bobASRep emptyWorld)) =
     [''hashes.txt'' \<mapsto> ''$krb5''] \<and>
   last (logged (snd (DumpASRepHash fullDiskEnv exampleSession bobASRep emptyWorld))) =
     (ERROR, ''[!] Error writing hash to file: write hashes.txt: no space left on device'') \<and>
   fst (DumpASRepHash aesEnv exampleSession bobASRep emptyWorld) = Returned () \<and>
   files (snd (DumpASRepHash aesEnv exampleSession bobASRep emptyWorld)) = Map.empty"
proof -
  have h: "ASRepToHashcat fullDiskEnv bobASRep = (''$krb5asrep$23$bob'', None) \<and>
        HashFile exampleSession = Some \<lparr>Name = ''hashes.txt''\<rparr> \<and>
        WriteString_fault fullDiskEnv \<lparr>Name = ''hashes.txt''\<rparr> (''$krb5asrep$23$bob'' @ [nl]) =
          Some (5, OtherError ''write hashes.txt: no space left on device'')"
    by (simp add: fullDiskEnv_def exampleEnv_def bobASRep_def PrincipalNameString_def exampleSession_fields)
  from DumpASRepHash_swallows_errors [OF exampleSession_constructed, of exampleEnv bobASRep emptyWorld]
  have c1: "fst (DumpASRepHash exampleEnv exampleSession bobASRep emptyWorld) = Returned () \<and>
     files (snd (DumpASRepHash exampleEnv exampleSession bobASRep emptyWorld)) =
       [''hashes.txt'' \<mapsto> ''$krb5asrep$23$bob'' @ [nl]]"
    by (simp add: exampleEnv_def bobASRep_def PrincipalNameString_def exampleSession_fields
        emptyWorld_def contents_def)
  from DumpASRepHash_swallows_errors [OF exampleSession_constructed, of fullDiskEnv bobASRep emptyWorld
      "''$krb5asrep$23$bob''" "\<lparr>Name = ''hashes.txt''\<rparr>" 5 "OtherError ''write hashes.txt: no space left on device''"] h
  have c2: "fst (DumpASRepHash fullDiskEnv exampleSession bobASRep emptyWorld) = Returned () \<and>
     files (snd (DumpASRepHash fullDiskEnv exampleSession bobASRep emptyWorld)) =
       [''hashes.txt'' \<mapsto> ''$krb5''] \<and>
     last (logged (snd (DumpASRepHash fullDiskEnv exampleSession bobASRep emptyWorld))) =
       (ERROR, ''[!] Error writing hash to file: write hashes.txt: no space left on device'')"
    by (simp add: emptyWorld_def contents_def)
  from DumpASRepHash_swallows_errors [OF exampleSession_constructed, of aesEnv bobASRep emptyWorld]
  have c3: "fst (DumpASRepHash aesEnv exampleSession bobASRep emptyWorld) = Returned () \<and>
     files (snd (DumpASRepHash aesEnv exampleSession bobASRep emptyWorld)) = Map.empty"
    by (simp add: aesEnv_def emptyWorld_def)
  from c1 c2 c3 exampleSession_constructed show ?thesis by blast
qed

text \<open>
  Claim C10. When \<open>Marshal\<close> fails, \<open>TestUsername\<close> returns \<open>false\<close> and the
  error of \<open>Marshal\<close>, nothing was sent to a KDC and no file changed. When only
  \<open>NewASReqForTGT\<close> fails, its error is printed and the bytes \<open>Marshal\<close> gives
  for the request are sent all the same.
\<close>

theorem TestUsername_marshal_error:
  assumes "cl = NewWithPassword env username (Realm k) ''foobar'' (Config k) [DisablePAFXFAST True]"
    and "NewASReqForTGT env (Credentials.Domain (Credentials cl)) (Client.Config cl)
           (Credentials.CName (Credentials cl)) = (req, e0)"
  shows "(Marshal env req = (b, Some e) \<longrightarrow>
            fst (TestUsername env k username w) = Returned (False, Some e) \<and>
            calls (snd (TestUsername env k username w)) = calls w \<and>
            files (snd (TestUsername env k username w)) = files w) \<and>
         (e0 = Some e' \<and> Marshal env req = (b, None) \<longrightarrow>
            calls (snd (TestUsername env k username w)) = calls w @ [SendToKDC_call b (Realm k)] \<and>
            stdout (snd (TestUsername env k username w)) = stdout w @ [Error e'])"
  using assms
  by (auto simp add: TestUsername_def Let_def prod_eq_iff split: option.splits prod.splits error.splits outcome.splits)

theorem TestUsername_marshal_error_witness:
  "fst (TestUsername marshalFailEnv exampleSession ''alice'' emptyWorld) =
     Returned (False, Some (OtherError ''asn1: cannot marshal'')) \<and>
   calls (snd (TestUsername marshalFailEnv exampleSession ''alice'' emptyWorld)) = [] \<and>
   files (snd (TestUsername marshalFailEnv exampleSession ''alice'' emptyWorld)) = files emptyWorld \<and>
   calls (snd (TestUsername noRequestEnv exampleSession ''alice'' emptyWorld)) =
     [SendToKDC_call [] ''EXAMPLE.COM''] \<and>
   stdout (snd (TestUsername noRequestEnv exampleSession ''alice'' emptyWorld)) = [''no encryption types'']"
proof -
  have r1: "NewASReqForTGT marshalFailEnv
     (Credentials.Domain (Credentials (NewWithPassword marshalFailEnv ''alice'' (Realm exampleSession) ''foobar'' (Config exampleSession) [DisablePAFXFAST True])))
     (Client.Config (NewWithPassword marshalFailEnv ''alice'' (Realm exampleSession) ''foobar'' (Config exampleSession) [DisablePAFXFAST True]))
     (Credentials.CName (Credentials (NewWithPassword marshalFailEnv ''alice'' (Realm exampleSession) ''foobar'' (Config exampleSession) [DisablePAFXFAST True])))
   = (''AS-REQ alice@EXAMPLE.COM'', None)"
    using example_request [of "''alice''"] by (simp add: marshalFailEnv_def)
  have m1: "Marshal marshalFailEnv ''AS-REQ alice@EXAMPLE.COM'' = ([], Some (OtherError ''asn1: cannot marshal''))"
    by (simp add: marshalFailEnv_def)
  have r2: "NewASReqForTGT noRequestEnv
     (Credentials.Domain (Credentials (NewWithPassword noRequestEnv ''alice'' (Realm exampleSession) ''foobar'' (Config exampleSession) [DisablePAFXFAST True])))
     (Client.Config (NewWithPassword noRequestEnv ''alice'' (Realm exampleSession) ''foobar'' (Config exampleSession) [DisablePAFXFAST True]))
     (Credentials.CName (Credentials (NewWithPassword noRequestEnv ''alice'' (Realm exampleSession) ''foobar'' (Config exampleSession) [DisablePAFXFAST True])))
   = ([], Some (OtherError ''no encryption types''))"
    by (simp add: noRequestEnv_def)
  have m2: "Marshal noRequestEnv [] = ([], None)"
    by (simp add: noRequestEnv_def example_marshal)
  from TestUsername_marshal_error [OF refl r1, of "[]" "OtherError ''asn1: cannot marshal''" emptyWorld] m1
  have c1: "fst (TestUsername marshalFailEnv exampleSession ''alice'' emptyWorld) =
     Returned (False, Some (OtherError ''asn1: cannot marshal'')) \<and>
     calls (snd (TestUsername marshalFailEnv exampleSession ''alice'' emptyWorld)) = calls emptyWorld \<and>
     files (snd (TestUsername marshalFailEnv exampleSession ''alice'' emptyWorld)) = files emptyWorld"
    by blast
  from TestUsername_marshal_error [OF refl r2, of "[]" _ emptyWorld "OtherError ''no encryption types''"] m2
  have c2: "calls (snd (TestUsername noRequestEnv exampleSession ''alice'' emptyWorld)) =
       calls emptyWorld @ [SendToKDC_call [] (Realm exampleSession)] \<and>
     stdout (snd (TestUsername noRequestEnv exampleSession ''alice'' emptyWorld)) =
       stdout emptyWorld @ [Error (OtherError ''no encryption types'')]"
    by blast
  from c1 c2 show ?thesis by (simp add: emptyWorld_def exampleSession_fields)
qed

end
